theory Spec2Isabelle
  imports Complex_Main
begin

section \<open>Errors of the remote store\<close>

text \<open>
  A Go \<open>error\<close> is either a status error of the API server, which carries a reason
  and a message, a plain error made by \<open>fmt.Errorf\<close> or \<open>errors.New\<close>, or a
  run-time panic (calling a nil function value), which unwinds through the caller
  and is never classified as a conflict.
\<close>

datatype StatusReason =
    StatusReasonNotFound
  | StatusReasonAlreadyExists
  | StatusReasonConflict
  | StatusReasonOther string

datatype error =
    StatusError StatusReason string
  | ErrorString string
  | Panic string

text \<open>
  Modelled from the spec: the classifiers \<open>IsConflict\<close>, \<open>IsNotFound\<close> and
  \<open>IsAlreadyExists\<close> of k8s.io/apimachinery, a library that the repository's sources
  do not hold. A status error is classified by its reason; any other error is none
  of the three.
\<close>

fun IsConflict :: "error \<Rightarrow> bool" where
  "IsConflict (StatusError r m) = (r = StatusReasonConflict)"
| "IsConflict (ErrorString m) = False"
| "IsConflict (Panic m) = False"

fun IsNotFound :: "error \<Rightarrow> bool" where
  "IsNotFound (StatusError r m) = (r = StatusReasonNotFound)"
| "IsNotFound (ErrorString m) = False"
| "IsNotFound (Panic m) = False"

fun IsAlreadyExists :: "error \<Rightarrow> bool" where
  "IsAlreadyExists (StatusError r m) = (r = StatusReasonAlreadyExists)"
| "IsAlreadyExists (ErrorString m) = False"
| "IsAlreadyExists (Panic m) = False"

section \<open>Objects\<close>

text \<open>
  An \<open>interface{}\<close> value taken out of an unstructured document: \<open>Nil\<close> is Go's
  \<open>nil\<close>, which \<open>unstructured.NestedFieldCopy\<close> returns for a field that is absent.
\<close>

datatype 'a "value" = Nil | Val 'a

text \<open>
  A \<open>client.Object\<close>, seen through its unstructured form: the identity fields of the
  metadata, the optional top-level field \<open>status\<close>, and everything else (\<open>body\<close>).
  \<open>unconvertible\<close> is the error, if any, that the unstructured converter reports on
  the object. Copies are values, so \<open>DeepCopyObject\<close> is the identity; both
  \<open>equality.Semantic.DeepEqual\<close> on objects and \<open>reflect.DeepEqual\<close> on their
  unstructured forms are equality of these values.
\<close>

record ('b, 't) object =
  Namespace :: string
  Name :: string
  body :: 'b
  status :: "'t value option"
  unconvertible :: "error option"

type_synonym ObjectKey = "string \<times> string"

definition ObjectKeyFromObject :: "('b, 't) object \<Rightarrow> ObjectKey" where
  "ObjectKeyFromObject obj = (Namespace obj, Name obj)"

text \<open>
  Modelled from the spec: \<open>runtime.DefaultUnstructuredConverter\<close> of
  k8s.io/apimachinery, which converts a structured snapshot into a generic tree. The
  unstructured form of an object is the object itself, unless the converter reports
  an error.
\<close>

definition ToUnstructured :: "('b, 't) object \<Rightarrow> error + ('b, 't) object" where
  "ToUnstructured obj = (case unconvertible obj of Some err \<Rightarrow> Inl err | None \<Rightarrow> Inr obj)"

definition FromUnstructured :: "('b, 't) object \<Rightarrow> error + ('b, 't) object" where
  "FromUnstructured u = (case unconvertible u of Some err \<Rightarrow> Inl err | None \<Rightarrow> Inr u)"

text \<open>
  Modelled from the spec: the helpers of \<open>unstructured\<close> (k8s.io/apimachinery) that
  extract, remove and set the field \<open>status\<close>. \<open>NestedFieldCopy(u, "status")\<close> gives
  the value and whether it was found. With a path of one field on a map,
  \<open>NestedFieldCopy\<close> and \<open>SetNestedField\<close> return no error, so the error they return
  is left out.
\<close>

definition NestedFieldCopy_status :: "('b, 't) object \<Rightarrow> 't value \<times> bool" where
  "NestedFieldCopy_status u = (case status u of None \<Rightarrow> (Nil, False) | Some v \<Rightarrow> (v, True))"

definition RemoveNestedField_status :: "('b, 't) object \<Rightarrow> ('b, 't) object" where
  "RemoveNestedField_status u = u\<lparr>status := None\<rparr>"

definition SetNestedField_status :: "('b, 't) object \<Rightarrow> 't value \<Rightarrow> ('b, 't) object" where
  "SetNestedField_status u v = u\<lparr>status := Some v\<rparr>"

section \<open>The client of the store and the calls made to it\<close>

datatype 'o patch = MergeFrom 'o | Merge

datatype 'o call =
    GetCall ObjectKey
  | CreateCall 'o
  | UpdateCall 'o
  | PatchCall 'o "'o patch"
  | StatusUpdateCall 'o
  | StatusPatchCall 'o "'o patch"

fun isWrite :: "'o call \<Rightarrow> bool" where
  "isWrite (GetCall k) = False"
| "isWrite c = True"

text \<open>
  \<open>client.Client\<close> is an interface of controller-runtime. Every method gets the object
  by pointer and may overwrite it with the answer of the server, so every method
  returns the error and the object; \<open>'s\<close> is the state of the store behind it.
\<close>

record ('o, 's) client =
  Get :: "ObjectKey \<Rightarrow> 'o \<Rightarrow> 's \<Rightarrow> (error option \<times> 'o) \<times> 's"
  Create :: "'o \<Rightarrow> 's \<Rightarrow> (error option \<times> 'o) \<times> 's"
  Update :: "'o \<Rightarrow> 's \<Rightarrow> (error option \<times> 'o) \<times> 's"
  Patch :: "'o \<Rightarrow> 'o patch \<Rightarrow> 's \<Rightarrow> (error option \<times> 'o) \<times> 's"
  StatusUpdate :: "'o \<Rightarrow> 's \<Rightarrow> (error option \<times> 'o) \<times> 's"
  StatusPatch :: "'o \<Rightarrow> 'o patch \<Rightarrow> 's \<Rightarrow> (error option \<times> 'o) \<times> 's"

text \<open>
  The world an operation runs in: the store, the calls issued so far in order, the
  delays slept so far, and the source of the random samples of the jitter.
\<close>

record ('o, 's) world =
  store :: 's
  calls :: "'o call list"
  slept :: "rat list"
  rand :: "nat \<Rightarrow> rat"

definition doGet ::
  "('o, 's) client \<Rightarrow> ObjectKey \<Rightarrow> 'o \<Rightarrow> ('o, 's) world \<Rightarrow> (error option \<times> 'o) \<times> ('o, 's) world" where
  "doGet c key obj w =
     (case Get c key obj (store w) of
        (r, s') \<Rightarrow> (r, w\<lparr>store := s', calls := calls w @ [GetCall key]\<rparr>))"

definition doCreate ::
  "('o, 's) client \<Rightarrow> 'o \<Rightarrow> ('o, 's) world \<Rightarrow> (error option \<times> 'o) \<times> ('o, 's) world" where
  "doCreate c obj w =
     (case Create c obj (store w) of
        (r, s') \<Rightarrow> (r, w\<lparr>store := s', calls := calls w @ [CreateCall obj]\<rparr>))"

definition doUpdate ::
  "('o, 's) client \<Rightarrow> 'o \<Rightarrow> ('o, 's) world \<Rightarrow> (error option \<times> 'o) \<times> ('o, 's) world" where
  "doUpdate c obj w =
     (case Update c obj (store w) of
        (r, s') \<Rightarrow> (r, w\<lparr>store := s', calls := calls w @ [UpdateCall obj]\<rparr>))"

definition doPatch ::
  "('o, 's) client \<Rightarrow> 'o \<Rightarrow> 'o patch \<Rightarrow> ('o, 's) world \<Rightarrow> (error option \<times> 'o) \<times> ('o, 's) world" where
  "doPatch c obj p w =
     (case Patch c obj p (store w) of
        (r, s') \<Rightarrow> (r, w\<lparr>store := s', calls := calls w @ [PatchCall obj p]\<rparr>))"

definition doStatusUpdate ::
  "('o, 's) client \<Rightarrow> 'o \<Rightarrow> ('o, 's) world \<Rightarrow> (error option \<times> 'o) \<times> ('o, 's) world" where
  "doStatusUpdate c obj w =
     (case StatusUpdate c obj (store w) of
        (r, s') \<Rightarrow> (r, w\<lparr>store := s', calls := calls w @ [StatusUpdateCall obj]\<rparr>))"

definition doStatusPatch ::
  "('o, 's) client \<Rightarrow> 'o \<Rightarrow> 'o patch \<Rightarrow> ('o, 's) world \<Rightarrow> (error option \<times> 'o) \<times> ('o, 's) world" where
  "doStatusPatch c obj p w =
     (case StatusPatch c obj p (store w) of
        (r, s') \<Rightarrow> (r, w\<lparr>store := s', calls := calls w @ [StatusPatchCall obj p]\<rparr>))"

section \<open>Results of an operation\<close>

text \<open>\<open>controllerutil.OperationResult\<close> is a string type; its zero value is the empty string.\<close>

type_synonym OperationResult = string

definition OperationResultNone :: OperationResult where
  "OperationResultNone = ''unchanged''"

definition OperationResultCreated :: OperationResult where
  "OperationResultCreated = ''created''"

definition OperationResultUpdated :: OperationResult where
  "OperationResultUpdated = ''updated''"

definition OperationResultUpdatedStatus :: OperationResult where
  "OperationResultUpdatedStatus = ''updatedStatus''"

definition OperationResultUpdatedStatusOnly :: OperationResult where
  "OperationResultUpdatedStatusOnly = ''updatedStatusOnly''"

section \<open>One attempt of each operation\<close>

text \<open>
  The mutation function \<open>f\<close> is a closure over the object: it changes the object in
  place and returns an error or nil. A nil function value is \<open>None\<close>.
\<close>

type_synonym 'o MutateFn = "('o \<Rightarrow> error option \<times> 'o) option"

definition identityError :: error where
  "identityError = ErrorString ''func() error cannot mutate object name and/or object namespace''"

text \<open>
  \<open>mutate\<close> calls the function and then compares the key of the object with the key
  taken before the Get. Calling a nil function panics.
\<close>

definition mutate ::
  "('b, 't) object MutateFn \<Rightarrow> ObjectKey \<Rightarrow> ('b, 't) object \<Rightarrow> error option \<times> ('b, 't) object" where
  "mutate f key obj =
     (case f of
        None \<Rightarrow> (Some (Panic ''invalid memory address or nil pointer dereference''), obj)
      | Some g \<Rightarrow>
          (case g obj of
             (Some err, obj') \<Rightarrow> (Some err, obj')
           | (None, obj') \<Rightarrow>
               if key \<noteq> ObjectKeyFromObject obj' then (Some identityError, obj')
               else (None, obj')))"

definition getAndUpdate ::
  "(('b, 't) object, 's) client \<Rightarrow> ('b, 't) object \<Rightarrow> ('b, 't) object MutateFn \<Rightarrow>
   (('b, 't) object, 's) world \<Rightarrow>
   (OperationResult \<times> error option) \<times> ('b, 't) object \<times> (('b, 't) object, 's) world" where
  "getAndUpdate c obj f w =
     (let key = ObjectKeyFromObject obj in
      case doGet c key obj w of
        ((Some err, obj1), w1) \<Rightarrow> ((OperationResultNone, Some err), obj1, w1)
      | ((None, obj1), w1) \<Rightarrow>
          (let existing = obj1 in
           case mutate f key obj1 of
             (Some err, obj2) \<Rightarrow> ((OperationResultNone, Some err), obj2, w1)
           | (None, obj2) \<Rightarrow>
               if existing = obj2 then ((OperationResultNone, None), obj2, w1)
               else
                 (case doUpdate c obj2 w1 of
                    ((Some err, obj3), w2) \<Rightarrow> ((OperationResultNone, Some err), obj3, w2)
                  | ((None, obj3), w2) \<Rightarrow> ((OperationResultUpdated, None), obj3, w2))))"

text \<open>
  \<open>getAndPatch\<close> returns early on the error of the Get, of each conversion and of
  the mutation; the result is \<open>updated\<close> once the body patch has succeeded, and the
  status patch is issued with the object that the body patch returned, its status set
  again to the status after the mutation.
\<close>

definition getAndPatch ::
  "(('b, 't) object, 's) client \<Rightarrow> ('b, 't) object \<Rightarrow> ('b, 't) object MutateFn \<Rightarrow>
   (('b, 't) object, 's) world \<Rightarrow>
   (OperationResult \<times> error option) \<times> ('b, 't) object \<times> (('b, 't) object, 's) world" where
  "getAndPatch c obj f w =
     (let key = ObjectKeyFromObject obj in
      case doGet c key obj w of
        ((Some err, obj1), w1) \<Rightarrow> ((OperationResultNone, Some err), obj1, w1)
      | ((None, obj1), w1) \<Rightarrow>
          (let objPatch = MergeFrom obj1;
               statusPatch = MergeFrom obj1
           in
           case ToUnstructured obj1 of
             Inl err \<Rightarrow> ((OperationResultNone, Some err), obj1, w1)
           | Inr before \<Rightarrow>
               (let (beforeStatus, hasBeforeStatus) = NestedFieldCopy_status before;
                    before = (if hasBeforeStatus then RemoveNestedField_status before else before)
                in
                case (if f \<noteq> None then mutate f key obj1 else (None, obj1)) of
                  (Some err, obj2) \<Rightarrow> ((OperationResultNone, Some err), obj2, w1)
                | (None, obj2) \<Rightarrow>
                    (case ToUnstructured obj2 of
                       Inl err \<Rightarrow> ((OperationResultNone, Some err), obj2, w1)
                     | Inr after \<Rightarrow>
                         (let (afterStatus, hasAfterStatus) = NestedFieldCopy_status after;
                              after = (if hasAfterStatus then RemoveNestedField_status after else after);
                              result = OperationResultNone
                          in
                          case (if before \<noteq> after
                                then (case doPatch c obj2 objPatch w1 of
                                        ((e, obj3), w2) \<Rightarrow> (e, OperationResultUpdated, obj3, w2))
                                else (None, result, obj2, w1)) of
                            (Some err, r, obj3, w2) \<Rightarrow> ((result, Some err), obj3, w2)
                          | (None, result, obj3, w2) \<Rightarrow>
                              if (hasBeforeStatus \<or> hasAfterStatus) \<and> beforeStatus \<noteq> afterStatus then
                                (case (if result = OperationResultUpdated
                                       then (case ToUnstructured obj3 of
                                               Inl err \<Rightarrow> Inl err
                                             | Inr objectAfterPatch \<Rightarrow>
                                                 FromUnstructured
                                                   (SetNestedField_status objectAfterPatch afterStatus))
                                       else Inr obj3) of
                                   Inl err \<Rightarrow> ((result, Some err), obj3, w2)
                                 | Inr obj3' \<Rightarrow>
                                     (case doStatusPatch c obj3' statusPatch w2 of
                                        ((Some err, obj4), w3) \<Rightarrow> ((result, Some err), obj4, w3)
                                      | ((None, obj4), w3) \<Rightarrow>
                                          ((if result = OperationResultUpdated
                                            then OperationResultUpdatedStatus
                                            else OperationResultUpdatedStatusOnly, None), obj4, w3)))
                              else ((result, None), obj3, w2))))))"

definition createOrPatchWithJsonMerge ::
  "(('b, 't) object, 's) client \<Rightarrow> ('b, 't) object \<Rightarrow> ('b, 't) object MutateFn \<Rightarrow>
   (('b, 't) object, 's) world \<Rightarrow>
   (OperationResult \<times> error option) \<times> ('b, 't) object \<times> (('b, 't) object, 's) world" where
  "createOrPatchWithJsonMerge c obj f w =
     (let key = ObjectKeyFromObject obj in
      case doGet c key obj w of
        ((Some err, obj1), w1) \<Rightarrow>
          if \<not> IsNotFound err then ((OperationResultNone, Some err), obj1, w1)
          else
            (case mutate f key obj1 of
               (Some err, obj2) \<Rightarrow> ((OperationResultNone, Some err), obj2, w1)
             | (None, obj2) \<Rightarrow>
                 (case doCreate c obj2 w1 of
                    ((Some err, obj3), w2) \<Rightarrow> ((OperationResultNone, Some err), obj3, w2)
                  | ((None, obj3), w2) \<Rightarrow> ((OperationResultCreated, None), obj3, w2)))
      | ((None, obj1), w1) \<Rightarrow>
          (let existing = obj1 in
           case mutate f key obj1 of
             (Some err, obj2) \<Rightarrow> ((OperationResultNone, Some err), obj2, w1)
           | (None, obj2) \<Rightarrow>
               if existing = obj2 then ((OperationResultNone, None), obj2, w1)
               else
                 (case doPatch c obj2 Merge w1 of
                    ((Some err, obj3), w2) \<Rightarrow> ((OperationResultNone, Some err), obj3, w2)
                  | ((None, obj3), w2) \<Rightarrow> ((OperationResultUpdated, None), obj3, w2))))"

section \<open>The create-or-update and the create-or-patch of controllerutil\<close>

text \<open>
  Modelled from the spec: \<open>controllerutil.CreateOrUpdate\<close> of the controller-runtime
  library, which \<open>CreateOrUpdate\<close> of the client calls and whose code the repository
  does not hold. The spec (4.3, CreateOrUpdateFullDocument): if absent, apply the
  mutation and Create; if present, apply the mutation, compare by full structural
  equality, and Update only on difference. \<open>getAndUpdate\<close> is, by its comment, a
  changed copy of this function: what is done with an object that is there is the
  same, and a fetch error other than not-found is returned as it is.
\<close>

definition controllerutil_CreateOrUpdate ::
  "(('b, 't) object, 's) client \<Rightarrow> ('b, 't) object \<Rightarrow> ('b, 't) object MutateFn \<Rightarrow>
   (('b, 't) object, 's) world \<Rightarrow>
   (OperationResult \<times> error option) \<times> ('b, 't) object \<times> (('b, 't) object, 's) world" where
  "controllerutil_CreateOrUpdate c obj f w =
     (let key = ObjectKeyFromObject obj in
      case doGet c key obj w of
        ((Some err, obj1), w1) \<Rightarrow>
          if \<not> IsNotFound err then ((OperationResultNone, Some err), obj1, w1)
          else
            (case mutate f key obj1 of
               (Some err, obj2) \<Rightarrow> ((OperationResultNone, Some err), obj2, w1)
             | (None, obj2) \<Rightarrow>
                 (case doCreate c obj2 w1 of
                    ((Some err, obj3), w2) \<Rightarrow> ((OperationResultNone, Some err), obj3, w2)
                  | ((None, obj3), w2) \<Rightarrow> ((OperationResultCreated, None), obj3, w2)))
      | ((None, obj1), w1) \<Rightarrow>
          (let existing = obj1 in
           case mutate f key obj1 of
             (Some err, obj2) \<Rightarrow> ((OperationResultNone, Some err), obj2, w1)
           | (None, obj2) \<Rightarrow>
               if existing = obj2 then ((OperationResultNone, None), obj2, w1)
               else
                 (case doUpdate c obj2 w1 of
                    ((Some err, obj3), w2) \<Rightarrow> ((OperationResultNone, Some err), obj3, w2)
                  | ((None, obj3), w2) \<Rightarrow> ((OperationResultUpdated, None), obj3, w2))))"

text \<open>
  Modelled from the spec: \<open>controllerutil.CreateOrPatch\<close> of the same library, which
  \<open>CreateOrPatch\<close> of the client calls; the create-or-patch that the spec (2) names
  among the operations of the engine. If absent, apply the mutation, when there is
  one, and Create (4.3, as for the other create-or operations); if present, the body
  patch and the status patch of fetch-and-patch (4.3, FetchAndPatch), as \<open>getAndPatch\<close>
  computes them from the fetched object.
\<close>

definition controllerutil_CreateOrPatch ::
  "(('b, 't) object, 's) client \<Rightarrow> ('b, 't) object \<Rightarrow> ('b, 't) object MutateFn \<Rightarrow>
   (('b, 't) object, 's) world \<Rightarrow>
   (OperationResult \<times> error option) \<times> ('b, 't) object \<times> (('b, 't) object, 's) world" where
  "controllerutil_CreateOrPatch c obj f w =
     (let key = ObjectKeyFromObject obj in
      case doGet c key obj w of
        ((Some err, obj1), w1) \<Rightarrow>
          if \<not> IsNotFound err then ((OperationResultNone, Some err), obj1, w1)
          else
            (case (if f \<noteq> None then mutate f key obj1 else (None, obj1)) of
               (Some err, obj2) \<Rightarrow> ((OperationResultNone, Some err), obj2, w1)
             | (None, obj2) \<Rightarrow>
                 (case doCreate c obj2 w1 of
                    ((Some err, obj3), w2) \<Rightarrow> ((OperationResultNone, Some err), obj3, w2)
                  | ((None, obj3), w2) \<Rightarrow> ((OperationResultCreated, None), obj3, w2)))
      | ((None, obj1), w1) \<Rightarrow>
          (let objPatch = MergeFrom obj1;
               statusPatch = MergeFrom obj1
           in
           case ToUnstructured obj1 of
             Inl err \<Rightarrow> ((OperationResultNone, Some err), obj1, w1)
           | Inr before \<Rightarrow>
               (let (beforeStatus, hasBeforeStatus) = NestedFieldCopy_status before;
                    before = (if hasBeforeStatus then RemoveNestedField_status before else before)
                in
                case (if f \<noteq> None then mutate f key obj1 else (None, obj1)) of
                  (Some err, obj2) \<Rightarrow> ((OperationResultNone, Some err), obj2, w1)
                | (None, obj2) \<Rightarrow>
                    (case ToUnstructured obj2 of
                       Inl err \<Rightarrow> ((OperationResultNone, Some err), obj2, w1)
                     | Inr after \<Rightarrow>
                         (let (afterStatus, hasAfterStatus) = NestedFieldCopy_status after;
                              after = (if hasAfterStatus then RemoveNestedField_status after else after);
                              result = OperationResultNone
                          in
                          case (if before \<noteq> after
                                then (case doPatch c obj2 objPatch w1 of
                                        ((e, obj3), w2) \<Rightarrow> (e, OperationResultUpdated, obj3, w2))
                                else (None, result, obj2, w1)) of
                            (Some err, r, obj3, w2) \<Rightarrow> ((result, Some err), obj3, w2)
                          | (None, result, obj3, w2) \<Rightarrow>
                              if (hasBeforeStatus \<or> hasAfterStatus) \<and> beforeStatus \<noteq> afterStatus then
                                (case (if result = OperationResultUpdated
                                       then (case ToUnstructured obj3 of
                                               Inl err \<Rightarrow> Inl err
                                             | Inr objectAfterPatch \<Rightarrow>
                                                 FromUnstructured
                                                   (SetNestedField_status objectAfterPatch afterStatus))
                                       else Inr obj3) of
                                   Inl err \<Rightarrow> ((result, Some err), obj3, w2)
                                 | Inr obj3' \<Rightarrow>
                                     (case doStatusPatch c obj3' statusPatch w2 of
                                        ((Some err, obj4), w3) \<Rightarrow> ((result, Some err), obj4, w3)
                                      | ((None, obj4), w3) \<Rightarrow>
                                          ((if result = OperationResultUpdated
                                            then OperationResultUpdatedStatus
                                            else OperationResultUpdatedStatusOnly, None), obj4, w3)))
                              else ((result, None), obj3, w2))))))"

section \<open>The retry policy\<close>

text \<open>
  Modelled from the spec: \<open>wait.Backoff\<close> of k8s.io/apimachinery and
  \<open>retry.RetryOnConflict\<close> of k8s.io/client-go are libraries, absent from the
  repository's sources. The configuration is the step count, the initial delay (in
  seconds), the multiplicative factor and the jitter fraction.
\<close>

record backoff =
  Steps :: int
  Duration :: rat
  Factor :: rat
  Jitter :: rat

definition defaultBackoff :: backoff where
  "defaultBackoff = \<lparr>Steps = 5, Duration = 1, Factor = 3 / 2, Jitter = 1 / 2\<rparr>"

text \<open>
  Modelled from the spec: one step of the backoff uses up a step and returns the delay
  to sleep now and the configuration of the next step: each delay is the previous one
  times the factor, perturbed by the jitter, where \<open>r\<close> is the random sample in
  \<open>[0, 1)\<close> that the jitter draws. As in the library, a factor of zero leaves the
  delay as it is and a jitter that is not positive adds nothing.
\<close>

definition Step :: "backoff \<Rightarrow> rat \<Rightarrow> rat \<times> backoff" where
  "Step b r =
     (let duration = Duration b;
          b' = b\<lparr>Steps := Steps b - 1,
                  Duration := (if Factor b \<noteq> 0 then Duration b * Factor b else Duration b)\<rparr>
      in (if 0 < Jitter b then duration + r * Jitter b * duration else duration, b'))"

text \<open>
  Modelled from the spec: the operation is run while steps remain; it is retried only
  while it reports an error that \<open>retriable\<close> accepts, after sleeping the delay of the
  step; any other error is returned at once, and when the steps are used up the last
  retriable error is returned as it is. \<open>'a\<close> is the state the closure captures.
\<close>

function OnError ::
  "backoff \<Rightarrow> (error \<Rightarrow> bool) \<Rightarrow>
   ('a \<Rightarrow> ('o, 's) world \<Rightarrow> (error option \<times> 'a) \<times> ('o, 's) world) \<Rightarrow>
   error option \<Rightarrow> 'a \<Rightarrow> ('o, 's) world \<Rightarrow> (error option \<times> 'a) \<times> ('o, 's) world" where
  "OnError b retriable fn lastErr a w =
     (if 0 < Steps b then
        (case fn a w of
           ((None, a'), w') \<Rightarrow> ((None, a'), w')
         | ((Some err, a'), w') \<Rightarrow>
             if retriable err then
               (if Steps b = 1 then ((Some err, a'), w')
                else
                  (case Step b (rand w' (length (slept w'))) of
                     (d, b') \<Rightarrow>
                       OnError b' retriable fn (Some err) a' (w'\<lparr>slept := slept w' @ [d]\<rparr>)))
             else ((Some err, a'), w'))
      else ((lastErr, a), w))"
  by pat_completeness auto
termination
  by (relation "measure (\<lambda>(b, retriable, fn, lastErr, a, w). nat (Steps b))")
     (auto simp: Step_def Let_def)

text \<open>
  Modelled from the spec: \<open>retry.RetryOnConflict\<close> retries on the errors that
  \<open>IsConflict\<close> accepts and starts with no last error.
\<close>

definition RetryOnConflict ::
  "backoff \<Rightarrow> ('a \<Rightarrow> ('o, 's) world \<Rightarrow> (error option \<times> 'a) \<times> ('o, 's) world) \<Rightarrow>
   'a \<Rightarrow> ('o, 's) world \<Rightarrow> (error option \<times> 'a) \<times> ('o, 's) world" where
  "RetryOnConflict b fn a w = OnError b IsConflict fn None a w"

section \<open>The client with options\<close>

text \<open>
  \<open>richClient\<close> embeds the client of the store and the options. An option is a
  function that changes the options in place; \<open>ApplyOptions\<close> applies them in order.
\<close>

record ClientOptions =
  Backoff :: backoff

type_synonym ClientOption = "ClientOptions \<Rightarrow> ClientOptions"

record ('o, 's) richClient =
  Client :: "('o, 's) client"
  ClientOptions :: ClientOptions

definition ApplyOptions :: "ClientOption list \<Rightarrow> ('o, 's) richClient \<Rightarrow> ('o, 's) richClient" where
  "ApplyOptions opts c = c\<lparr>ClientOptions := foldl (\<lambda>options opt. opt options) (ClientOptions c) opts\<rparr>"

definition NewClient :: "('o, 's) client \<Rightarrow> ClientOption list \<Rightarrow> ('o, 's) richClient" where
  "NewClient c opts = ApplyOptions opts \<lparr>Client = c, ClientOptions = \<lparr>Backoff = defaultBackoff\<rparr>\<rparr>"

text \<open>
  \<open>GetAndUpdate\<close>, \<open>CreateOrPatchWithJsonMerge\<close> and \<open>GetAndPatch\<close> give the retry a
  closure that runs one attempt and assigns the named results. The closure captures
  the result (whose zero value is the empty string) and the object, which every
  attempt changes in place; \<open>retried\<close> is the body the three methods share.
\<close>

definition attempt ::
  "('o \<Rightarrow> ('o, 's) world \<Rightarrow> (OperationResult \<times> error option) \<times> 'o \<times> ('o, 's) world) \<Rightarrow>
   OperationResult \<times> 'o \<Rightarrow> ('o, 's) world \<Rightarrow> (error option \<times> OperationResult \<times> 'o) \<times> ('o, 's) world" where
  "attempt op = (\<lambda>(result, obj) w. case op obj w of ((result', err), obj', w') \<Rightarrow> ((err, result', obj'), w'))"

definition retried ::
  "backoff \<Rightarrow> ('o \<Rightarrow> ('o, 's) world \<Rightarrow> (OperationResult \<times> error option) \<times> 'o \<times> ('o, 's) world) \<Rightarrow>
   'o \<Rightarrow> ('o, 's) world \<Rightarrow> (OperationResult \<times> error option) \<times> 'o \<times> ('o, 's) world" where
  "retried b op obj w =
     (case RetryOnConflict b (attempt op) ([], obj) w of
        ((err, result, obj'), w') \<Rightarrow> ((result, err), obj', w'))"

definition GetAndUpdate ::
  "(('b, 't) object, 's) richClient \<Rightarrow> ('b, 't) object \<Rightarrow> ('b, 't) object MutateFn \<Rightarrow>
   (('b, 't) object, 's) world \<Rightarrow>
   (OperationResult \<times> error option) \<times> ('b, 't) object \<times> (('b, 't) object, 's) world" where
  "GetAndUpdate c obj f w =
     retried (Backoff (ClientOptions c)) (\<lambda>obj. getAndUpdate (Client c) obj f) obj w"

definition CreateOrPatchWithJsonMerge ::
  "(('b, 't) object, 's) richClient \<Rightarrow> ('b, 't) object \<Rightarrow> ('b, 't) object MutateFn \<Rightarrow>
   (('b, 't) object, 's) world \<Rightarrow>
   (OperationResult \<times> error option) \<times> ('b, 't) object \<times> (('b, 't) object, 's) world" where
  "CreateOrPatchWithJsonMerge c obj f w =
     retried (Backoff (ClientOptions c)) (\<lambda>obj. createOrPatchWithJsonMerge (Client c) obj f) obj w"

definition GetAndPatch ::
  "(('b, 't) object, 's) richClient \<Rightarrow> ('b, 't) object \<Rightarrow> ('b, 't) object MutateFn \<Rightarrow>
   (('b, 't) object, 's) world \<Rightarrow>
   (OperationResult \<times> error option) \<times> ('b, 't) object \<times> (('b, 't) object, 's) world" where
  "GetAndPatch c obj f w =
     retried (Backoff (ClientOptions c)) (\<lambda>obj. getAndPatch (Client c) obj f) obj w"

text \<open>
  \<open>CreateOrUpdate\<close> and \<open>CreateOrPatch\<close> give the retry the same closure, around the
  two functions of the library.
\<close>

definition CreateOrUpdate ::
  "(('b, 't) object, 's) richClient \<Rightarrow> ('b, 't) object \<Rightarrow> ('b, 't) object MutateFn \<Rightarrow>
   (('b, 't) object, 's) world \<Rightarrow>
   (OperationResult \<times> error option) \<times> ('b, 't) object \<times> (('b, 't) object, 's) world" where
  "CreateOrUpdate c obj f w =
     retried (Backoff (ClientOptions c)) (\<lambda>obj. controllerutil_CreateOrUpdate (Client c) obj f) obj w"

definition CreateOrPatch ::
  "(('b, 't) object, 's) richClient \<Rightarrow> ('b, 't) object \<Rightarrow> ('b, 't) object MutateFn \<Rightarrow>
   (('b, 't) object, 's) world \<Rightarrow>
   (OperationResult \<times> error option) \<times> ('b, 't) object \<times> (('b, 't) object, 's) world" where
  "CreateOrPatch c obj f w =
     retried (Backoff (ClientOptions c)) (\<lambda>obj. controllerutil_CreateOrPatch (Client c) obj f) obj w"

text \<open>
  The closure of \<open>CreateIfNotExist\<close>, one attempt: any error of the Get leads to the
  Create, and of the errors of the Create only AlreadyExists is turned into nil.
\<close>

definition createIfNotExist ::
  "(('b, 't) object, 's) client \<Rightarrow> ('b, 't) object \<Rightarrow> (('b, 't) object, 's) world \<Rightarrow>
   (error option \<times> ('b, 't) object) \<times> (('b, 't) object, 's) world" where
  "createIfNotExist c obj w =
     (case doGet c (ObjectKeyFromObject obj) obj w of
        ((Some err, obj1), w1) \<Rightarrow>
          (case doCreate c obj1 w1 of
             ((Some err', obj2), w2) \<Rightarrow>
               if \<not> IsAlreadyExists err' then ((Some err', obj2), w2) else ((None, obj2), w2)
           | ((None, obj2), w2) \<Rightarrow> ((None, obj2), w2))
      | ((None, obj1), w1) \<Rightarrow> ((None, obj1), w1))"

definition CreateIfNotExist ::
  "(('b, 't) object, 's) richClient \<Rightarrow> ('b, 't) object \<Rightarrow> (('b, 't) object, 's) world \<Rightarrow>
   (error option \<times> ('b, 't) object) \<times> (('b, 't) object, 's) world" where
  "CreateIfNotExist c obj w = RetryOnConflict (Backoff (ClientOptions c)) (createIfNotExist (Client c)) obj w"

text \<open>The closure of \<open>UpdateStatus\<close> is the status update alone.\<close>

definition UpdateStatus ::
  "('o, 's) richClient \<Rightarrow> 'o \<Rightarrow> ('o, 's) world \<Rightarrow> (error option \<times> 'o) \<times> ('o, 's) world" where
  "UpdateStatus c obj w = RetryOnConflict (Backoff (ClientOptions c)) (doStatusUpdate (Client c)) obj w"

section \<open>The comparisons of getAndPatch\<close>

text \<open>
  The two comparisons of \<open>getAndPatch\<close>, on the snapshot fetched and the snapshot
  mutated: the documents without their status, and the status values.
\<close>

definition bodyDiffers :: "('b, 't) object \<Rightarrow> ('b, 't) object \<Rightarrow> bool" where
  "bodyDiffers obj1 obj2 = (RemoveNestedField_status obj1 \<noteq> RemoveNestedField_status obj2)"

definition statusDiffers :: "('b, 't) object \<Rightarrow> ('b, 't) object \<Rightarrow> bool" where
  "statusDiffers obj1 obj2 =
     ((snd (NestedFieldCopy_status obj1) \<or> snd (NestedFieldCopy_status obj2)) \<and>
      fst (NestedFieldCopy_status obj1) \<noteq> fst (NestedFieldCopy_status obj2))"

section \<open>Observing a run of the retry\<close>

text \<open>
  To observe a run of the retry, the operation is wrapped so that it also records,
  in order, what every invocation returned.
\<close>

definition logged ::
  "('a \<Rightarrow> ('o, 's) world \<Rightarrow> (error option \<times> 'a) \<times> ('o, 's) world) \<Rightarrow>
   'a \<times> error option list \<Rightarrow> ('o, 's) world \<Rightarrow>
   (error option \<times> 'a \<times> error option list) \<times> ('o, 's) world" where
  "logged fn = (\<lambda>(a, hist) w. case fn a w of ((e, a'), w') \<Rightarrow> ((e, a', hist @ [e]), w'))"

definition isConflictResult :: "error option \<Rightarrow> bool" where
  "isConflictResult e = (case e of None \<Rightarrow> False | Some err \<Rightarrow> IsConflict err)"

text \<open>
  The delays that a run sleeps when every attempt is retried: one for each step but
  the last, drawn from the sample \<open>rnd k\<close> on.
\<close>

function delays :: "backoff \<Rightarrow> (nat \<Rightarrow> rat) \<Rightarrow> nat \<Rightarrow> rat list" where
  "delays b rnd k =
     (if 1 < Steps b then (case Step b (rnd k) of (d, b') \<Rightarrow> d # delays b' rnd (Suc k)) else [])"
  by pat_completeness auto
termination
  by (relation "measure (\<lambda>(b, rnd, k). nat (Steps b))") (auto simp: Step_def Let_def)

declare delays.simps [simp del]

section \<open>The methods with their receiver\<close>

text \<open>
  The receiver of every method declared on \<open>richClient\<close> is a pointer to the client,
  so a method is able to assign the options, as \<open>ApplyOptions\<close> does. Here each of
  the other methods returns, next to its results, the client as the call leaves it.
  \<open>c.Backoff\<close> is read once, when the retry is called, and passed by value; the
  closure captures the pointer and reads \<open>c.Client\<close> at each attempt, so the client is
  part of the state that the retry hands from attempt to attempt. \<open>capturing\<close> is
  such a closure, and \<open>retriedOn\<close> the body that the five methods with a mutation
  function share. The mutation function and the store work on the object and the
  store alone.
\<close>

definition capturing ::
  "(('o, 's) richClient \<Rightarrow> 'a \<Rightarrow> ('o, 's) world \<Rightarrow> (error option \<times> 'a) \<times> ('o, 's) world) \<Rightarrow>
   'a \<times> ('o, 's) richClient \<Rightarrow> ('o, 's) world \<Rightarrow>
   (error option \<times> 'a \<times> ('o, 's) richClient) \<times> ('o, 's) world" where
  "capturing fn = (\<lambda>(a, c) w. case fn c a w of ((err, a'), w') \<Rightarrow> ((err, a', c), w'))"

definition retriedOn ::
  "(('o, 's) richClient \<Rightarrow> 'o \<Rightarrow> ('o, 's) world \<Rightarrow>
      (OperationResult \<times> error option) \<times> 'o \<times> ('o, 's) world) \<Rightarrow>
   ('o, 's) richClient \<Rightarrow> 'o \<Rightarrow> ('o, 's) world \<Rightarrow>
   ((OperationResult \<times> error option) \<times> 'o \<times> ('o, 's) world) \<times> ('o, 's) richClient" where
  "retriedOn op c obj w =
     (case RetryOnConflict (Backoff (ClientOptions c)) (capturing (\<lambda>c. attempt (op c))) (([], obj), c) w of
        ((err, (result, obj'), c'), w') \<Rightarrow> (((result, err), obj', w'), c'))"

definition GetAndUpdate_receiver ::
  "(('b, 't) object, 's) richClient \<Rightarrow> ('b, 't) object \<Rightarrow> ('b, 't) object MutateFn \<Rightarrow>
   (('b, 't) object, 's) world \<Rightarrow>
   ((OperationResult \<times> error option) \<times> ('b, 't) object \<times> (('b, 't) object, 's) world) \<times>
   (('b, 't) object, 's) richClient" where
  "GetAndUpdate_receiver c obj f w = retriedOn (\<lambda>c obj. getAndUpdate (Client c) obj f) c obj w"

definition CreateOrPatchWithJsonMerge_receiver ::
  "(('b, 't) object, 's) richClient \<Rightarrow> ('b, 't) object \<Rightarrow> ('b, 't) object MutateFn \<Rightarrow>
   (('b, 't) object, 's) world \<Rightarrow>
   ((OperationResult \<times> error option) \<times> ('b, 't) object \<times> (('b, 't) object, 's) world) \<times>
   (('b, 't) object, 's) richClient" where
  "CreateOrPatchWithJsonMerge_receiver c obj f w =
     retriedOn (\<lambda>c obj. createOrPatchWithJsonMerge (Client c) obj f) c obj w"

definition GetAndPatch_receiver ::
  "(('b, 't) object, 's) richClient \<Rightarrow> ('b, 't) object \<Rightarrow> ('b, 't) object MutateFn \<Rightarrow>
   (('b, 't) object, 's) world \<Rightarrow>
   ((OperationResult \<times> error option) \<times> ('b, 't) object \<times> (('b, 't) object, 's) world) \<times>
   (('b, 't) object, 's) richClient" where
  "GetAndPatch_receiver c obj f w = retriedOn (\<lambda>c obj. getAndPatch (Client c) obj f) c obj w"

definition CreateOrUpdate_receiver ::
  "(('b, 't) object, 's) richClient \<Rightarrow> ('b, 't) object \<Rightarrow> ('b, 't) object MutateFn \<Rightarrow>
   (('b, 't) object, 's) world \<Rightarrow>
   ((OperationResult \<times> error option) \<times> ('b, 't) object \<times> (('b, 't) object, 's) world) \<times>
   (('b, 't) object, 's) richClient" where
  "CreateOrUpdate_receiver c obj f w =
     retriedOn (\<lambda>c obj. controllerutil_CreateOrUpdate (Client c) obj f) c obj w"

definition CreateOrPatch_receiver ::
  "(('b, 't) object, 's) richClient \<Rightarrow> ('b, 't) object \<Rightarrow> ('b, 't) object MutateFn \<Rightarrow>
   (('b, 't) object, 's) world \<Rightarrow>
   ((OperationResult \<times> error option) \<times> ('b, 't) object \<times> (('b, 't) object, 's) world) \<times>
   (('b, 't) object, 's) richClient" where
  "CreateOrPatch_receiver c obj f w =
     retriedOn (\<lambda>c obj. controllerutil_CreateOrPatch (Client c) obj f) c obj w"

definition CreateIfNotExist_receiver ::
  "(('b, 't) object, 's) richClient \<Rightarrow> ('b, 't) object \<Rightarrow> (('b, 't) object, 's) world \<Rightarrow>
   ((error option \<times> ('b, 't) object) \<times> (('b, 't) object, 's) world) \<times>
   (('b, 't) object, 's) richClient" where
  "CreateIfNotExist_receiver c obj w =
     (case RetryOnConflict (Backoff (ClientOptions c)) (capturing (\<lambda>c. createIfNotExist (Client c))) (obj, c) w of
        ((err, obj', c'), w') \<Rightarrow> (((err, obj'), w'), c'))"

definition UpdateStatus_receiver ::
  "('o, 's) richClient \<Rightarrow> 'o \<Rightarrow> ('o, 's) world \<Rightarrow>
   ((error option \<times> 'o) \<times> ('o, 's) world) \<times> ('o, 's) richClient" where
  "UpdateStatus_receiver c obj w =
     (case RetryOnConflict (Backoff (ClientOptions c)) (capturing (\<lambda>c. doStatusUpdate (Client c))) (obj, c) w of
        ((err, obj', c'), w') \<Rightarrow> (((err, obj'), w'), c'))"

text \<open>
  The three accessors. A Secret and a ConfigMap are objects whose body is the \<open>Data\<close>
  map, \<open>None\<close> being the nil map; the length of what a nil map, or a map without the
  key, gives for the field is zero. An accessor fetches into a new, empty object.
  \<open>yaml.Unmarshal\<close> is a parameter, a function of the text and the target that gives an
  error and the target.
\<close>

type_synonym ('t) dataObject = "((string \<rightharpoonup> string) option, 't) object"

definition emptyObject :: "('t) dataObject" where
  "emptyObject = \<lparr>Namespace = [], Name = [], body = None, status = None, unconvertible = None\<rparr>"

definition GetNonEmptySecretField ::
  "(('t) dataObject, 's) richClient \<Rightarrow> string \<Rightarrow> string \<Rightarrow> string \<Rightarrow>
   (('t) dataObject, 's) world \<Rightarrow>
   ((error + string) \<times> (('t) dataObject, 's) world) \<times> (('t) dataObject, 's) richClient" where
  "GetNonEmptySecretField c namespace name field w =
     (let secret = emptyObject in
      case doGet (Client c) (namespace, name) secret w of
        ((Some err, secret), w1) \<Rightarrow> ((Inl err, w1), c)
      | ((None, secret), w1) \<Rightarrow>
          (case body secret of
             None \<Rightarrow> ((Inl (ErrorString (''secret '' @ name @ '' is empty'')), w1), c)
           | Some data \<Rightarrow>
               (let v = (case data field of None \<Rightarrow> [] | Some v \<Rightarrow> v) in
                if length v = 0
                then ((Inl (ErrorString (''empty field '' @ field @ '' in secret '' @ name)), w1), c)
                else ((Inr v, w1), c))))"

definition GetNonEmptyConfigMapField ::
  "(('t) dataObject, 's) richClient \<Rightarrow> string \<Rightarrow> string \<Rightarrow> string \<Rightarrow>
   (('t) dataObject, 's) world \<Rightarrow>
   ((error + string) \<times> (('t) dataObject, 's) world) \<times> (('t) dataObject, 's) richClient" where
  "GetNonEmptyConfigMapField c namespace name field w =
     (let cm = emptyObject in
      case doGet (Client c) (namespace, name) cm w of
        ((Some err, cm), w1) \<Rightarrow> ((Inl err, w1), c)
      | ((None, cm), w1) \<Rightarrow>
          (let v = (case body cm of
                      None \<Rightarrow> []
                    | Some data \<Rightarrow> (case data field of None \<Rightarrow> [] | Some v \<Rightarrow> v))
           in
           if length v = 0
           then ((Inl (ErrorString (''empty field '' @ field @ '' in configmap '' @ name)), w1), c)
           else ((Inr v, w1), c)))"

definition GetConfigMapFieldYamlUnmarshal ::
  "(string \<Rightarrow> 'x \<Rightarrow> error option \<times> 'x) \<Rightarrow>
   (('t) dataObject, 's) richClient \<Rightarrow> string \<Rightarrow> string \<Rightarrow> string \<Rightarrow> 'x \<Rightarrow>
   (('t) dataObject, 's) world \<Rightarrow>
   ((error option \<times> 'x) \<times> (('t) dataObject, 's) world) \<times> (('t) dataObject, 's) richClient" where
  "GetConfigMapFieldYamlUnmarshal yamlUnmarshal c namespace name field obj w =
     (case GetNonEmptyConfigMapField c namespace name field w of
        ((Inl err, w1), c1) \<Rightarrow> (((Some err, obj), w1), c1)
      | ((Inr s, w1), c1) \<Rightarrow> ((yamlUnmarshal s obj, w1), c1))"

section \<open>Test doubles and example data\<close>

text \<open>
  A scripted client, in the manner of the repository's generated mock: the store is
  the list of the answers still to give; every call takes the next one, an error or
  nil and, when given, the object the server answers with. An empty script answers
  nil and leaves the object as it is.
\<close>

type_synonym 'o script = "(error option \<times> 'o option) list"

fun respond :: "'o \<Rightarrow> 'o script \<Rightarrow> (error option \<times> 'o) \<times> 'o script" where
  "respond obj [] = ((None, obj), [])"
| "respond obj ((e, None) # rest) = ((e, obj), rest)"
| "respond obj ((e, Some obj') # rest) = ((e, obj'), rest)"

definition scriptedClient :: "('o, 'o script) client" where
  "scriptedClient =
     \<lparr>Get = (\<lambda>key obj. respond obj), Create = respond, Update = respond,
      Patch = (\<lambda>obj p. respond obj), StatusUpdate = respond,
      StatusPatch = (\<lambda>obj p. respond obj)\<rparr>"

definition conflictError :: error where
  "conflictError = StatusError StatusReasonConflict ''the object has been modified''"

definition forbiddenError :: error where
  "forbiddenError = StatusError (StatusReasonOther ''Forbidden'') ''pods is forbidden''"

text \<open>A client whose store answers every write with a conflict.\<close>

definition conflictingClient :: "('o, unit) client" where
  "conflictingClient =
     \<lparr>Get = (\<lambda>key obj s. ((None, obj), s)),
      Create = (\<lambda>obj s. ((Some conflictError, obj), s)),
      Update = (\<lambda>obj s. ((Some conflictError, obj), s)),
      Patch = (\<lambda>obj p s. ((Some conflictError, obj), s)),
      StatusUpdate = (\<lambda>obj s. ((Some conflictError, obj), s)),
      StatusPatch = (\<lambda>obj p s. ((Some conflictError, obj), s))\<rparr>"

text \<open>A world in which nothing has happened yet, and whose jitter always draws 0.\<close>

definition newWorld :: "'s \<Rightarrow> ('o, 's) world" where
  "newWorld s = \<lparr>store = s, calls = [], slept = [], rand = (\<lambda>i. 0)\<rparr>"

text \<open>A \<open>ClientOption\<close> that a caller can write: it replaces the backoff.\<close>

definition withBackoff :: "backoff \<Rightarrow> ClientOption" where
  "withBackoff b = (\<lambda>options. options\<lparr>Backoff := b\<rparr>)"

definition halvingBackoff :: backoff where
  "halvingBackoff = \<lparr>Steps = 3, Duration = 1, Factor = 1 / 2, Jitter = 0\<rparr>"


text \<open>Pods: the body is the number of replicas, the status is the phase.\<close>

definition requestedPod :: "(nat, string) object" where
  "requestedPod = \<lparr>Namespace = ''default'', Name = ''web'', body = 0, status = None,
      unconvertible = None\<rparr>"

definition pendingPod :: "(nat, string) object" where
  "pendingPod = \<lparr>Namespace = ''default'', Name = ''web'', body = 1, status = Some (Val ''Pending''),
      unconvertible = None\<rparr>"

definition renamedPod :: "(nat, string) object" where
  "renamedPod = \<lparr>Namespace = ''default'', Name = ''other'', body = 1, status = Some (Val ''Pending''),
      unconvertible = None\<rparr>"

definition runningPod :: "(nat, string) object" where
  "runningPod = \<lparr>Namespace = ''default'', Name = ''web'', body = 1, status = Some (Val ''Running''),
      unconvertible = None\<rparr>"


definition scaledPod :: "(nat, string) object" where
  "scaledPod = \<lparr>Namespace = ''default'', Name = ''web'', body = 2, status = Some (Val ''Running''),
      unconvertible = None\<rparr>"

definition scaledPodV2 :: "(nat, string) object" where
  "scaledPodV2 = \<lparr>Namespace = ''default'', Name = ''web'', body = 3, status = Some (Val ''Pending''),
      unconvertible = None\<rparr>"

definition scaledPodV2Running :: "(nat, string) object" where
  "scaledPodV2Running = \<lparr>Namespace = ''default'', Name = ''web'', body = 3, status = Some (Val ''Running''),
      unconvertible = None\<rparr>"

text \<open>Mutation functions that return nil.\<close>

definition keep :: "'o \<Rightarrow> error option \<times> 'o" where
  "keep obj = (None, obj)"

definition rename :: "string \<Rightarrow> ('b, 't) object \<Rightarrow> error option \<times> ('b, 't) object" where
  "rename n obj = (None, obj\<lparr>Name := n\<rparr>)"


definition setStatus :: "'t \<Rightarrow> ('b, 't) object \<Rightarrow> error option \<times> ('b, 't) object" where
  "setStatus s obj = (None, obj\<lparr>status := Some (Val s)\<rparr>)"

definition setBodyAndStatus :: "'b \<Rightarrow> 't \<Rightarrow> ('b, 't) object \<Rightarrow> error option \<times> ('b, 't) object" where
  "setBodyAndStatus b s obj = (None, obj\<lparr>body := b, status := Some (Val s)\<rparr>)"

text \<open>A ConfigMap with one field.\<close>

definition settingsConfigMap :: "'t dataObject" where
  "settingsConfigMap =
     \<lparr>Namespace = ''default'', Name = ''settings'', body = Some [''mode'' \<mapsto> ''fast''],
      status = None, unconvertible = None\<rparr>"

section \<open>Basic facts\<close>

lemma doGet_eq:
  "Get c key obj (store w) = (r, s') \<Longrightarrow>
   doGet c key obj w = (r, w\<lparr>store := s', calls := calls w @ [GetCall key]\<rparr>)"
  by (simp add: doGet_def)

lemma OperationResult_distinct:
  "OperationResultUpdated \<noteq> OperationResultNone"
  "OperationResultNone \<noteq> OperationResultUpdated"
  by (simp_all add: OperationResultUpdated_def OperationResultNone_def)

lemma OnError_first_final:
  assumes "0 < Steps b" and "fn a w = ((e, a'), w')"
    and "\<And>err. e = Some err \<Longrightarrow> \<not> retriable err"
  shows "OnError b retriable fn lastErr a w = ((e, a'), w')"
  using assms by (cases e) (simp_all)

lemma retried_first_final:
  assumes "0 < Steps b" and "op obj w = ((result, e), obj', w')"
    and "\<And>err. e = Some err \<Longrightarrow> \<not> IsConflict err"
  shows "retried b op obj w = ((result, e), obj', w')"
proof -
  have "attempt op ([], obj) w = ((e, result, obj'), w')"
    using assms(2) by (simp add: attempt_def)
  then have "RetryOnConflict b (attempt op) ([], obj) w = ((e, result, obj'), w')"
    unfolding RetryOnConflict_def using assms(1,3) by (intro OnError_first_final) auto
  then show ?thesis by (simp add: retried_def)
qed

subsection \<open>Attempts that end after the fetch\<close>

lemma mutate_unchanged:
  "g obj1 = (None, obj1) \<Longrightarrow> ObjectKeyFromObject obj1 = key \<Longrightarrow> mutate (Some g) key obj1 = (None, obj1)"
  by (simp add: mutate_def)

lemma getAndUpdate_no_change:
  assumes "Get c (ObjectKeyFromObject obj) obj (store w) = ((None, obj1), s1)"
    and "mutate f (ObjectKeyFromObject obj) obj1 = (None, obj1)"
  shows "getAndUpdate c obj f w =
           ((OperationResultNone, None), obj1,
            w\<lparr>store := s1, calls := calls w @ [GetCall (ObjectKeyFromObject obj)]\<rparr>)"
  using assms by (simp add: getAndUpdate_def doGet_eq)

lemma createOrPatchWithJsonMerge_no_change:
  assumes "Get c (ObjectKeyFromObject obj) obj (store w) = ((None, obj1), s1)"
    and "mutate f (ObjectKeyFromObject obj) obj1 = (None, obj1)"
  shows "createOrPatchWithJsonMerge c obj f w =
           ((OperationResultNone, None), obj1,
            w\<lparr>store := s1, calls := calls w @ [GetCall (ObjectKeyFromObject obj)]\<rparr>)"
  using assms by (simp add: createOrPatchWithJsonMerge_def doGet_eq)

lemma getAndPatch_no_change:
  assumes "Get c (ObjectKeyFromObject obj) obj (store w) = ((None, obj1), s1)"
    and "unconvertible obj1 = None"
    and "f \<noteq> None \<Longrightarrow> mutate f (ObjectKeyFromObject obj) obj1 = (None, obj1)"
  shows "getAndPatch c obj f w =
           ((OperationResultNone, None), obj1,
            w\<lparr>store := s1, calls := calls w @ [GetCall (ObjectKeyFromObject obj)]\<rparr>)"
  using assms
  by (cases "f = None")
     (simp_all add: getAndPatch_def doGet_eq ToUnstructured_def Let_def split: prod.splits)

lemma mutate_identity:
  "g obj1 = (None, obj2) \<Longrightarrow> ObjectKeyFromObject obj2 \<noteq> key \<Longrightarrow>
   mutate (Some g) key obj1 = (Some identityError, obj2)"
  by (auto simp add: mutate_def)

lemma getAndUpdate_mutate_error:
  assumes "Get c (ObjectKeyFromObject obj) obj (store w) = ((None, obj1), s1)"
    and "mutate f (ObjectKeyFromObject obj) obj1 = (Some err, obj2)"
  shows "getAndUpdate c obj f w =
           ((OperationResultNone, Some err), obj2,
            w\<lparr>store := s1, calls := calls w @ [GetCall (ObjectKeyFromObject obj)]\<rparr>)"
  using assms by (simp add: getAndUpdate_def doGet_eq)

lemma getAndPatch_mutate_error:
  assumes "Get c (ObjectKeyFromObject obj) obj (store w) = ((None, obj1), s1)"
    and "unconvertible obj1 = None"
    and "f \<noteq> None"
    and "mutate f (ObjectKeyFromObject obj) obj1 = (Some err, obj2)"
  shows "getAndPatch c obj f w =
           ((OperationResultNone, Some err), obj2,
            w\<lparr>store := s1, calls := calls w @ [GetCall (ObjectKeyFromObject obj)]\<rparr>)"
  using assms
  by (simp add: getAndPatch_def doGet_eq ToUnstructured_def Let_def split: prod.splits)

subsection \<open>Attempts of getAndPatch that reach the comparison\<close>

lemma without_status:
  "(if snd (NestedFieldCopy_status u) then RemoveNestedField_status u else u) = RemoveNestedField_status u"
  by (cases "status u") (simp_all add: NestedFieldCopy_status_def RemoveNestedField_status_def)

lemma doPatch_eq:
  "Patch c obj p (store w) = (r, s') \<Longrightarrow>
   doPatch c obj p w = (r, w\<lparr>store := s', calls := calls w @ [PatchCall obj p]\<rparr>)"
  by (simp add: doPatch_def)

lemma doStatusPatch_eq:
  "StatusPatch c obj p (store w) = (r, s') \<Longrightarrow>
   doStatusPatch c obj p w = (r, w\<lparr>store := s', calls := calls w @ [StatusPatchCall obj p]\<rparr>)"
  by (simp add: doStatusPatch_def)

text \<open>What is left of an attempt of getAndPatch once the fetch and the mutation are done.\<close>

lemma ToUnstructured_ok: "unconvertible u = None \<Longrightarrow> ToUnstructured u = Inr u"
  by (simp add: ToUnstructured_def)

lemma status_restored:
  "unconvertible u = None \<Longrightarrow>
   (case ToUnstructured u of
      Inl err \<Rightarrow> Inl err
    | Inr objectAfterPatch \<Rightarrow> FromUnstructured (SetNestedField_status objectAfterPatch v))
     = Inr (SetNestedField_status u v)"
  by (simp add: ToUnstructured_def FromUnstructured_def SetNestedField_status_def)

lemma getAndPatch_mutated:
  assumes "Get c (ObjectKeyFromObject obj) obj (store w) = ((None, obj1), s1)"
    and "unconvertible obj1 = None"
    and "(if f \<noteq> None then mutate f (ObjectKeyFromObject obj) obj1 else (None, obj1)) = (None, obj2)"
    and "unconvertible obj2 = None"
    and "w1 = w\<lparr>store := s1, calls := calls w @ [GetCall (ObjectKeyFromObject obj)]\<rparr>"
  shows "getAndPatch c obj f w =
     (case (if bodyDiffers obj1 obj2
            then (case doPatch c obj2 (MergeFrom obj1) w1 of
                    ((e, obj3), w2) \<Rightarrow> (e, OperationResultUpdated, obj3, w2))
            else (None, OperationResultNone, obj2, w1)) of
        (Some err, r, obj3, w2) \<Rightarrow> ((OperationResultNone, Some err), obj3, w2)
      | (None, result, obj3, w2) \<Rightarrow>
          if statusDiffers obj1 obj2 then
            (case (if result = OperationResultUpdated
                   then (case ToUnstructured obj3 of
                           Inl err \<Rightarrow> Inl err
                         | Inr objectAfterPatch \<Rightarrow>
                             FromUnstructured
                               (SetNestedField_status objectAfterPatch (fst (NestedFieldCopy_status obj2))))
                   else Inr obj3) of
               Inl err \<Rightarrow> ((result, Some err), obj3, w2)
             | Inr obj3' \<Rightarrow>
                 (case doStatusPatch c obj3' (MergeFrom obj1) w2 of
                    ((Some err, obj4), w3) \<Rightarrow> ((result, Some err), obj4, w3)
                  | ((None, obj4), w3) \<Rightarrow>
                      ((if result = OperationResultUpdated then OperationResultUpdatedStatus
                        else OperationResultUpdatedStatusOnly, None), obj4, w3)))
          else ((result, None), obj3, w2))"
proof -
  obtain bs hb where nb: "NestedFieldCopy_status obj1 = (bs, hb)"
    by fastforce
  obtain as ha where na: "NestedFieldCopy_status obj2 = (as, ha)"
    by fastforce
  have b: "(if hb then RemoveNestedField_status obj1 else obj1) = RemoveNestedField_status obj1"
    using without_status[of obj1] by (simp add: nb)
  have a: "(if ha then RemoveNestedField_status obj2 else obj2) = RemoveNestedField_status obj2"
    using without_status[of obj2] by (simp add: na)
  have g: "doGet c (ObjectKeyFromObject obj) obj w = ((None, obj1), w1)"
    using assms(1) by (simp add: doGet_eq assms(5))
  have u: "ToUnstructured obj1 = Inr obj1" "ToUnstructured obj2 = Inr obj2"
    using assms(2,4) by (simp_all add: ToUnstructured_ok)
  have sd: "statusDiffers obj1 obj2 = ((hb \<or> ha) \<and> bs \<noteq> as)"
    by (simp add: statusDiffers_def nb na)
  have fa: "fst (NestedFieldCopy_status obj2) = as"
    by (simp add: na)
  show ?thesis
  proof (cases f)
    case None
    then have o: "obj2 = obj1" using assms(3) by simp
    then have "as = bs" using nb na by simp
    then show ?thesis
      unfolding getAndPatch_def sd fa bodyDiffers_def Let_def
      using u by (simp add: g None nb na b a o OperationResult_distinct)
  next
    case (Some h)
    then have m: "mutate (Some h) (ObjectKeyFromObject obj) obj1 = (None, obj2)"
      using assms(3) by simp
    show ?thesis
      unfolding getAndPatch_def sd fa bodyDiffers_def Let_def
      by (simp add: g Some m u nb na b a OperationResult_distinct)
  qed
qed

lemma mutate_ok:
  "g obj1 = (None, obj2) \<Longrightarrow> ObjectKeyFromObject obj2 = key \<Longrightarrow>
   mutate (Some g) key obj1 = (None, obj2)"
  by (simp add: mutate_def)

subsection \<open>The retry loop\<close>

lemma Step_Steps: "Step b r = (d, b') \<Longrightarrow> Steps b' = Steps b - 1"
  by (auto simp: Step_def Let_def)

lemma OnError_exhausted:
  "\<not> 0 < Steps b \<Longrightarrow> OnError b retriable fn lastErr a w = ((lastErr, a), w)"
  by simp

lemma OnError_last_step:
  "Steps b = 1 \<Longrightarrow> fn a w = ((e, a'), w') \<Longrightarrow> OnError b retriable fn lastErr a w = ((e, a'), w')"
  by (cases e) simp_all

lemma OnError_retry:
  assumes "1 < Steps b" and "fn a w = ((Some err, a'), w')" and "retriable err"
    and "Step b (rand w' (length (slept w'))) = (d, b')"
  shows "OnError b retriable fn lastErr a w =
           OnError b' retriable fn (Some err) a' (w'\<lparr>slept := slept w' @ [d]\<rparr>)"
  using assms by (subst OnError.simps) simp

lemma OnError_logged:
  assumes "OnError b IsConflict (logged fn) lastErr (a, l0) w = ((r, a', hist), w')"
  shows "\<exists>new. hist = l0 @ new \<and>
           (\<forall>e \<in> set (butlast new). isConflictResult e) \<and>
           (new \<noteq> [] \<longrightarrow> r = last new) \<and>
           (new = [] \<longrightarrow> r = lastErr \<and> Steps b \<le> 0) \<and>
           int (length new) \<le> max 0 (Steps b) \<and>
           (new \<noteq> [] \<and> isConflictResult r \<longrightarrow> int (length new) = Steps b)"
  using assms
proof (induction "nat (Steps b)" arbitrary: b lastErr a l0 w)
  case 0
  then have "\<not> 0 < Steps b" by simp
  then have "OnError b IsConflict (logged fn) lastErr (a, l0) w = ((lastErr, a, l0), w)"
    by (rule OnError_exhausted)
  with "0.prems" have "hist = l0" "r = lastErr" by simp_all
  with \<open>\<not> 0 < Steps b\<close> show ?case by simp
next
  case (Suc n)
  then have pos: "0 < Steps b" by simp
  obtain e a1 w1 where f: "fn a w = ((e, a1), w1)"
    by (metis prod.collapse)
  then have lf: "logged fn (a, l0) w = ((e, a1, l0 @ [e]), w1)"
    by (simp add: logged_def)
  show ?case
  proof (cases "isConflictResult e \<and> 1 < Steps b")
    case False
    then have "OnError b IsConflict (logged fn) lastErr (a, l0) w = ((e, a1, l0 @ [e]), w1)"
      using pos lf by (cases e) (auto simp: isConflictResult_def)
    with Suc.prems have "hist = l0 @ [e]" "r = e" by simp_all
    moreover have "isConflictResult e \<Longrightarrow> Steps b = 1"
      using False pos by simp
    ultimately show ?thesis using pos by auto
  next
    case True
    then obtain err where e: "e = Some err" "IsConflict err"
      by (cases e) (auto simp: isConflictResult_def)
    obtain d b' where st: "Step b (rand w1 (length (slept w1))) = (d, b')"
      by (metis prod.collapse)
    have sb: "Steps b' = Steps b - 1"
      using st by (rule Step_Steps)
    have "OnError b IsConflict (logged fn) lastErr (a, l0) w =
            OnError b' IsConflict (logged fn) (Some err) (a1, l0 @ [e]) (w1\<lparr>slept := slept w1 @ [d]\<rparr>)"
      using True lf e st by (intro OnError_retry) simp_all
    with Suc.prems have run: "OnError b' IsConflict (logged fn) (Some err) (a1, l0 @ [e])
                                (w1\<lparr>slept := slept w1 @ [d]\<rparr>) = ((r, a', hist), w')"
      by simp
    have "n = nat (Steps b')"
      using Suc.hyps(2) sb by simp
    from Suc.hyps(1)[OF this run] obtain new where new:
      "hist = (l0 @ [e]) @ new"
      "\<forall>e \<in> set (butlast new). isConflictResult e"
      "new \<noteq> [] \<longrightarrow> r = last new"
      "new = [] \<longrightarrow> r = Some err \<and> Steps b' \<le> 0"
      "int (length new) \<le> max 0 (Steps b')"
      "new \<noteq> [] \<and> isConflictResult r \<longrightarrow> int (length new) = Steps b'"
      by blast
    have ne: "new \<noteq> []"
      using new(4) sb True by auto
    have "hist = l0 @ (e # new)"
      using new(1) by simp
    moreover have "\<forall>x \<in> set (butlast (e # new)). isConflictResult x"
      using new(2) ne True by simp
    moreover have "r = last (e # new)"
      using new(3) ne by simp
    moreover have "int (length (e # new)) \<le> max 0 (Steps b)"
      using new(5) sb True by simp
    moreover have "isConflictResult r \<longrightarrow> int (length (e # new)) = Steps b"
      using new(6) ne sb by simp
    ultimately show ?thesis
      by (intro exI[of _ "e # new"]) simp
  qed
qed

lemma OnError_logged_sim:
  "(case OnError b retriable (logged fn) lastErr (a, l0) w of ((e, a', hist), w') \<Rightarrow> ((e, a'), w'))
     = OnError b retriable fn lastErr a w"
proof (induction "nat (Steps b)" arbitrary: b lastErr a l0 w)
  case 0
  then have "\<not> 0 < Steps b" by simp
  then show ?case by (simp add: OnError_exhausted)
next
  case (Suc n)
  then have pos: "0 < Steps b" by simp
  obtain e a1 w1 where f: "fn a w = ((e, a1), w1)"
    by (metis prod.collapse)
  then have lf: "logged fn (a, l0) w = ((e, a1, l0 @ [e]), w1)"
    by (simp add: logged_def)
  show ?case
  proof (cases "(\<exists>err. e = Some err \<and> retriable err) \<and> 1 < Steps b")
    case False
    then have "OnError b retriable (logged fn) lastErr (a, l0) w = ((e, a1, l0 @ [e]), w1)"
      and "OnError b retriable fn lastErr a w = ((e, a1), w1)"
      using pos lf f by (cases e; auto)+
    then show ?thesis by simp
  next
    case True
    then obtain err where e: "e = Some err" "retriable err"
      by blast
    obtain d b' where st: "Step b (rand w1 (length (slept w1))) = (d, b')"
      by (metis prod.collapse)
    have sb: "Steps b' = Steps b - 1"
      using st by (rule Step_Steps)
    have 1: "OnError b retriable (logged fn) lastErr (a, l0) w =
            OnError b' retriable (logged fn) (Some err) (a1, l0 @ [e]) (w1\<lparr>slept := slept w1 @ [d]\<rparr>)"
      using True lf e st by (intro OnError_retry) simp_all
    have 2: "OnError b retriable fn lastErr a w =
            OnError b' retriable fn (Some err) a1 (w1\<lparr>slept := slept w1 @ [d]\<rparr>)"
      using True f e st by (intro OnError_retry) simp_all
    have "n = nat (Steps b')"
      using Suc.hyps(2) sb by simp
    from Suc.hyps(1)[OF this] show ?thesis
      unfolding 1 2 .
  qed
qed

lemma delays_length: "int (length (delays b rnd k)) = max 0 (Steps b - 1)"
proof (induction b rnd k rule: delays.induct)
  case (1 b rnd k)
  show ?case
  proof (cases "1 < Steps b")
    case True
    obtain d b' where st: "Step b (rnd k) = (d, b')"
      by (metis prod.collapse)
    have "Steps b' = Steps b - 1"
      using st by (rule Step_Steps)
    with "1.IH"[OF True st[symmetric]] True st show ?thesis
      by (subst delays.simps) simp
  next
    case False
    then show ?thesis by (subst delays.simps) simp
  qed
qed

lemma Step_bounds:
  assumes "0 \<le> Duration b" and "0 \<le> Jitter b" and "1 + Jitter b \<le> Factor b"
    and "0 \<le> r" and "r < 1" and "Step b r = (d, b')"
  shows "Duration b \<le> d" and "d \<le> Duration b'" and "0 \<le> Duration b'"
    and "Jitter b' = Jitter b" and "Factor b' = Factor b"
proof -
  have f: "Factor b \<noteq> 0" "1 \<le> Factor b"
    using assms(2,3) by auto
  have b': "Duration b' = Duration b * Factor b" "Jitter b' = Jitter b" "Factor b' = Factor b"
    using assms(6) f by (auto simp: Step_def Let_def)
  have jd: "0 \<le> Jitter b * Duration b"
    using assms(1,2) by simp
  have "r * (Jitter b * Duration b) \<le> 1 * (Jitter b * Duration b)"
    using assms(5) jd by (intro mult_right_mono) simp_all
  then have up: "r * Jitter b * Duration b \<le> Jitter b * Duration b"
    by (simp add: mult.assoc)
  have lo: "0 \<le> r * Jitter b * Duration b"
    using assms(1,2,4) by simp
  have d: "d = Duration b + r * Jitter b * Duration b \<or> d = Duration b"
    using assms(6) by (auto simp: Step_def Let_def split: if_splits)
  show "Duration b \<le> d"
    using d lo by auto
  have "(1 + Jitter b) * Duration b \<le> Factor b * Duration b"
    using assms(1,3) by (intro mult_right_mono) simp_all
  then have "Duration b + Jitter b * Duration b \<le> Duration b * Factor b"
    by (simp add: algebra_simps)
  then show "d \<le> Duration b'"
    using d up jd unfolding b' by auto
  show "0 \<le> Duration b'"
    unfolding b' using assms(1) f by simp
  show "Jitter b' = Jitter b" "Factor b' = Factor b"
    using b' by simp_all
qed

lemma delays_sorted:
  assumes "0 \<le> Duration b" and "0 \<le> Jitter b" and "1 + Jitter b \<le> Factor b"
    and "\<forall>i. 0 \<le> rnd i \<and> rnd i < 1"
  shows "sorted (delays b rnd k) \<and> (\<forall>x \<in> set (delays b rnd k). Duration b \<le> x)"
  using assms
proof (induction b rnd k rule: delays.induct)
  case (1 b rnd k)
  show ?case
  proof (cases "1 < Steps b")
    case True
    obtain d b' where st: "Step b (rnd k) = (d, b')"
      by (metis prod.collapse)
    have r: "0 \<le> rnd k" "rnd k < 1"
      using "1.prems"(4) by simp_all
    note sb = Step_bounds[OF "1.prems"(1,2,3) r st]
    have ih: "sorted (delays b' rnd (Suc k)) \<and> (\<forall>x \<in> set (delays b' rnd (Suc k)). Duration b' \<le> x)"
      using "1.IH"[OF True st[symmetric]] sb "1.prems" by simp
    have eq: "delays b rnd k = d # delays b' rnd (Suc k)"
      using True st by (subst delays.simps) simp
    show ?thesis
      unfolding eq using ih sb(1,2) by auto
  next
    case False
    then have "delays b rnd k = []" by (subst delays.simps) simp
    then show ?thesis by simp
  qed
qed

lemma OnError_always_conflict:
  assumes "\<And>a w. isConflictResult (fst (fst (fn a w)))"
    and "\<And>a w. slept (snd (fn a w)) = slept w \<and> rand (snd (fn a w)) = rand w"
    and "0 < Steps b"
    and "OnError b IsConflict (logged fn) lastErr (a, l0) w = ((r, a', hist), w')"
  shows "\<exists>new. hist = l0 @ new \<and> int (length new) = Steps b \<and> isConflictResult r \<and>
           r = last new \<and> rand w' = rand w \<and>
           slept w' = slept w @ delays b (rand w) (length (slept w))"
  using assms(3,4)
proof (induction "nat (Steps b)" arbitrary: b lastErr a l0 w)
  case 0
  then show ?case by simp
next
  case (Suc n)
  obtain e a1 w1 where f: "fn a w = ((e, a1), w1)"
    by (metis prod.collapse)
  then have lf: "logged fn (a, l0) w = ((e, a1, l0 @ [e]), w1)"
    by (simp add: logged_def)
  have ce: "isConflictResult e"
    using assms(1)[of a w] f by simp
  then obtain err where e: "e = Some err" "IsConflict err"
    by (cases e) (auto simp: isConflictResult_def)
  have fr: "slept w1 = slept w" "rand w1 = rand w"
    using assms(2)[of a w] f by simp_all
  show ?case
  proof (cases "Steps b = 1")
    case True
    then have "OnError b IsConflict (logged fn) lastErr (a, l0) w = ((e, a1, l0 @ [e]), w1)"
      using lf by (rule OnError_last_step)
    with Suc.prems(2) have "hist = l0 @ [e]" "r = e" "w' = w1" by simp_all
    moreover have "delays b (rand w) (length (slept w)) = []"
      using True by (subst delays.simps) simp
    ultimately show ?thesis using True ce fr by simp
  next
    case False
    then have big: "1 < Steps b" using Suc.prems(1) by simp
    obtain d b' where st: "Step b (rand w1 (length (slept w1))) = (d, b')"
      by (metis prod.collapse)
    have sb: "Steps b' = Steps b - 1"
      using st by (rule Step_Steps)
    let ?w2 = "w1\<lparr>slept := slept w1 @ [d]\<rparr>"
    have "OnError b IsConflict (logged fn) lastErr (a, l0) w =
            OnError b' IsConflict (logged fn) (Some err) (a1, l0 @ [e]) ?w2"
      using big lf e st by (intro OnError_retry) simp_all
    with Suc.prems(2) have run: "OnError b' IsConflict (logged fn) (Some err) (a1, l0 @ [e]) ?w2
                                   = ((r, a', hist), w')"
      by simp
    have n: "n = nat (Steps b')"
      using Suc.hyps(2) sb by simp
    have pos: "0 < Steps b'"
      using sb big by simp
    from Suc.hyps(1)[OF n pos run] obtain new where new:
      "hist = (l0 @ [e]) @ new" "int (length new) = Steps b'" "isConflictResult r"
      "r = last new" "rand w' = rand ?w2"
      "slept w' = slept ?w2 @ delays b' (rand ?w2) (length (slept ?w2))"
      by blast
    have ne: "new \<noteq> []"
      using new(2) pos by auto
    have dl: "delays b (rand w) (length (slept w)) = d # delays b' (rand w) (Suc (length (slept w)))"
      using big st fr by (subst delays.simps) simp
    have "hist = l0 @ (e # new)" "int (length (e # new)) = Steps b" "r = last (e # new)"
      using new(1,2,4) ne sb by simp_all
    moreover have "rand w' = rand w" "slept w' = slept w @ delays b (rand w) (length (slept w))"
      using new(5,6) fr dl by simp_all
    ultimately show ?thesis
      using new(3) by blast
  qed
qed








subsection \<open>The functions of the library\<close>




subsection \<open>The receiver of a method\<close>

lemma OnError_capturing:
  "OnError b retriable (capturing fn) lastErr (a, c) w =
     (case OnError b retriable (fn c) lastErr a w of ((e, a'), w') \<Rightarrow> ((e, a', c), w'))"
proof (induction "nat (Steps b)" arbitrary: b lastErr a w)
  case 0
  then have "\<not> 0 < Steps b" by simp
  then show ?case by (simp add: OnError_exhausted)
next
  case (Suc n)
  then have pos: "0 < Steps b" by simp
  obtain e a1 w1 where f: "fn c a w = ((e, a1), w1)"
    by (metis prod.collapse)
  then have cf: "capturing fn (a, c) w = ((e, a1, c), w1)"
    by (simp add: capturing_def)
  show ?case
  proof (cases "(\<exists>err. e = Some err \<and> retriable err) \<and> 1 < Steps b")
    case False
    then have "OnError b retriable (capturing fn) lastErr (a, c) w = ((e, a1, c), w1)"
      and "OnError b retriable (fn c) lastErr a w = ((e, a1), w1)"
      using pos cf f by (cases e; auto)+
    then show ?thesis by simp
  next
    case True
    then obtain err where e: "e = Some err" "retriable err"
      by blast
    obtain d b' where st: "Step b (rand w1 (length (slept w1))) = (d, b')"
      by (metis prod.collapse)
    have sb: "Steps b' = Steps b - 1"
      using st by (rule Step_Steps)
    have 1: "OnError b retriable (capturing fn) lastErr (a, c) w =
            OnError b' retriable (capturing fn) (Some err) (a1, c) (w1\<lparr>slept := slept w1 @ [d]\<rparr>)"
      using True cf e st by (intro OnError_retry) simp_all
    have 2: "OnError b retriable (fn c) lastErr a w =
            OnError b' retriable (fn c) (Some err) a1 (w1\<lparr>slept := slept w1 @ [d]\<rparr>)"
      using True f e st by (intro OnError_retry) simp_all
    have "n = nat (Steps b')"
      using Suc.hyps(2) sb by simp
    from Suc.hyps(1)[OF this] show ?thesis
      unfolding 1 2 .
  qed
qed

lemma retriedOn_receiver:
  "retriedOn op c obj w = (retried (Backoff (ClientOptions c)) (op c) obj w, c)"
  by (simp add: retriedOn_def retried_def RetryOnConflict_def OnError_capturing
      del: OnError.simps split: prod.splits)

lemma CreateIfNotExist_receiver_eq:
  "CreateIfNotExist_receiver c obj w = (CreateIfNotExist c obj w, c)"
  by (simp add: CreateIfNotExist_receiver_def CreateIfNotExist_def RetryOnConflict_def OnError_capturing
      del: OnError.simps split: prod.splits)

lemma UpdateStatus_receiver_eq:
  "UpdateStatus_receiver c obj w = (UpdateStatus c obj w, c)"
  by (simp add: UpdateStatus_receiver_def UpdateStatus_def RetryOnConflict_def OnError_capturing
      del: OnError.simps split: prod.splits)

lemma GetNonEmptySecretField_receiver:
  "snd (GetNonEmptySecretField c namespace name field w) = c"
  by (simp add: GetNonEmptySecretField_def Let_def split: prod.splits option.splits)

lemma GetNonEmptyConfigMapField_receiver:
  "snd (GetNonEmptyConfigMapField c namespace name field w) = c"
  by (simp add: GetNonEmptyConfigMapField_def Let_def split: prod.splits option.splits)

lemma GetConfigMapFieldYamlUnmarshal_receiver:
  "snd (GetConfigMapFieldYamlUnmarshal yamlUnmarshal c namespace name field obj w) = c"
  using GetNonEmptyConfigMapField_receiver[of c namespace name field w]
  by (auto simp add: GetConfigMapFieldYamlUnmarshal_def split: prod.splits sum.splits)

section \<open>Claims\<close>

text \<open>
  C1. When the fetch succeeds with the object asked for (an object that the
  unstructured converter accepts) and the mutation function returns nil and leaves
  the fetched snapshot equal to itself, one attempt of
  \<open>getAndUpdate\<close>, \<open>getAndPatch\<close> and \<open>createOrPatchWithJsonMerge\<close>, and the
  retried operations \<open>GetAndUpdate\<close>, \<open>GetAndPatch\<close> and
  \<open>CreateOrPatchWithJsonMerge\<close> of a client with at least one step, issue the Get
  and no write call, and return the unchanged result with no error.
\<close>

theorem C1_no_change_no_write:
  assumes "Get (Client c) (ObjectKeyFromObject obj) obj (store w) = ((None, obj1), s1)"
    and "ObjectKeyFromObject obj1 = ObjectKeyFromObject obj"
    and "g obj1 = (None, obj1)"
    and "0 < Steps (Backoff (ClientOptions c))"
    and "w1 = w\<lparr>store := s1, calls := calls w @ [GetCall (ObjectKeyFromObject obj)]\<rparr>"
    and "unconvertible obj1 = None"
  shows "getAndUpdate (Client c) obj (Some g) w = ((OperationResultNone, None), obj1, w1) \<and>
         getAndPatch (Client c) obj (Some g) w = ((OperationResultNone, None), obj1, w1) \<and>
         createOrPatchWithJsonMerge (Client c) obj (Some g) w = ((OperationResultNone, None), obj1, w1) \<and>
         GetAndUpdate c obj (Some g) w = ((OperationResultNone, None), obj1, w1) \<and>
         GetAndPatch c obj (Some g) w = ((OperationResultNone, None), obj1, w1) \<and>
         CreateOrPatchWithJsonMerge c obj (Some g) w = ((OperationResultNone, None), obj1, w1) \<and>
         filter isWrite (calls w1) = filter isWrite (calls w)"
proof -
  have m: "mutate (Some g) (ObjectKeyFromObject obj) obj1 = (None, obj1)"
    using assms(2,3) by (simp add: mutate_unchanged)
  have u: "getAndUpdate (Client c) obj (Some g) w = ((OperationResultNone, None), obj1, w1)"
    unfolding assms(5) using assms(1) m by (rule getAndUpdate_no_change)
  have p: "getAndPatch (Client c) obj (Some g) w = ((OperationResultNone, None), obj1, w1)"
    unfolding assms(5) using assms(1,6) m by (rule getAndPatch_no_change)
  have j: "createOrPatchWithJsonMerge (Client c) obj (Some g) w = ((OperationResultNone, None), obj1, w1)"
    unfolding assms(5) using assms(1) m by (rule createOrPatchWithJsonMerge_no_change)
  have U: "GetAndUpdate c obj (Some g) w = ((OperationResultNone, None), obj1, w1)"
    unfolding GetAndUpdate_def using assms(4) u by (rule retried_first_final) simp
  have P: "GetAndPatch c obj (Some g) w = ((OperationResultNone, None), obj1, w1)"
    unfolding GetAndPatch_def using assms(4) p by (rule retried_first_final) simp
  have J: "CreateOrPatchWithJsonMerge c obj (Some g) w = ((OperationResultNone, None), obj1, w1)"
    unfolding CreateOrPatchWithJsonMerge_def using assms(4) j by (rule retried_first_final) simp
  have "filter isWrite (calls w1) = filter isWrite (calls w)"
    by (simp add: assms(5))
  with u p j U P J show ?thesis by simp
qed

text \<open>C1 at the scripted client, whose Get answers with a pod.\<close>

theorem C1_no_change_no_write_witness:
  "GetAndUpdate (NewClient scriptedClient []) requestedPod (Some keep) (newWorld [(None, Some pendingPod)])
     = ((OperationResultNone, None), pendingPod,
        \<lparr>store = [], calls = [GetCall (''default'', ''web'')], slept = [], rand = (\<lambda>i. 0)\<rparr>) \<and>
   GetAndPatch (NewClient scriptedClient []) requestedPod (Some keep) (newWorld [(None, Some pendingPod)])
     = ((OperationResultNone, None), pendingPod,
        \<lparr>store = [], calls = [GetCall (''default'', ''web'')], slept = [], rand = (\<lambda>i. 0)\<rparr>) \<and>
   CreateOrPatchWithJsonMerge (NewClient scriptedClient []) requestedPod (Some keep) (newWorld [(None, Some pendingPod)])
     = ((OperationResultNone, None), pendingPod,
        \<lparr>store = [], calls = [GetCall (''default'', ''web'')], slept = [], rand = (\<lambda>i. 0)\<rparr>)"
  using C1_no_change_no_write [of "NewClient scriptedClient []" requestedPod
      "newWorld [(None, Some pendingPod)]" pendingPod "[]" keep
      "\<lparr>store = [], calls = [GetCall (''default'', ''web'')], slept = [], rand = (\<lambda>i. 0)\<rparr>"]
  by (simp add: NewClient_def ApplyOptions_def defaultBackoff_def scriptedClient_def newWorld_def
        requestedPod_def pendingPod_def keep_def ObjectKeyFromObject_def)

text \<open>
  C2. In one attempt of \<open>getAndPatch\<close> in which the fetch and the mutation succeed
  (on objects that the unstructured converter accepts) and the body patch, when one
  is issued, succeeds: after the Get, a body patch is
  issued if and only if the documents without status differ, then a status patch if
  and only if the status values differ, each at most once; the result is
  updatedStatus, updated, updatedStatusOnly or unchanged according to which of the two
  was written, and the error is that of the status patch, if any.
\<close>

theorem C2_patch_plan:
  assumes "Get (Client c) (ObjectKeyFromObject obj) obj (store w) = ((None, obj1), s1)"
    and "g obj1 = (None, obj2)"
    and "ObjectKeyFromObject obj2 = ObjectKeyFromObject obj"
    and "bodyDiffers obj1 obj2 \<Longrightarrow> Patch (Client c) obj2 (MergeFrom obj1) s1 = ((None, obj3), s2)"
    and "sobj = (if bodyDiffers obj1 obj2
                 then SetNestedField_status obj3 (fst (NestedFieldCopy_status obj2)) else obj2)"
    and "StatusPatch (Client c) sobj (MergeFrom obj1) (if bodyDiffers obj1 obj2 then s2 else s1)
           = ((e, obj4), s3)"
    and "unconvertible obj1 = None"
    and "unconvertible obj2 = None"
    and "bodyDiffers obj1 obj2 \<Longrightarrow> unconvertible obj3 = None"
  shows "calls (snd (snd (getAndPatch (Client c) obj (Some g) w))) =
           calls w @ [GetCall (ObjectKeyFromObject obj)] @
           (if bodyDiffers obj1 obj2 then [PatchCall obj2 (MergeFrom obj1)] else []) @
           (if statusDiffers obj1 obj2 then [StatusPatchCall sobj (MergeFrom obj1)] else []) \<and>
         fst (getAndPatch (Client c) obj (Some g) w) =
           (if statusDiffers obj1 obj2 \<and> e = None
            then (if bodyDiffers obj1 obj2 then OperationResultUpdatedStatus
                  else OperationResultUpdatedStatusOnly)
            else (if bodyDiffers obj1 obj2 then OperationResultUpdated else OperationResultNone),
            if statusDiffers obj1 obj2 then e else None)"
proof -
  let ?w1 = "w\<lparr>store := s1, calls := calls w @ [GetCall (ObjectKeyFromObject obj)]\<rparr>"
  let ?w2 = "?w1\<lparr>store := s2, calls := calls ?w1 @ [PatchCall obj2 (MergeFrom obj1)]\<rparr>"
  have m: "(if Some g \<noteq> None then mutate (Some g) (ObjectKeyFromObject obj) obj1 else (None, obj1)) = (None, obj2)"
    using assms(2,3) by (simp add: mutate_ok)
  note run = getAndPatch_mutated[OF assms(1,7) m assms(8) refl]
  show ?thesis
  proof (cases "bodyDiffers obj1 obj2")
    case True
    have p: "doPatch (Client c) obj2 (MergeFrom obj1) ?w1 = ((None, obj3), ?w2)"
      using assms(4)[OF True] by (intro doPatch_eq) simp
    have sp: "doStatusPatch (Client c) sobj (MergeFrom obj1) ?w2 =
                ((e, obj4), ?w2\<lparr>store := s3, calls := calls ?w2 @ [StatusPatchCall sobj (MergeFrom obj1)]\<rparr>)"
      using assms(6) True by (intro doStatusPatch_eq) simp
    have so: "sobj = SetNestedField_status obj3 (fst (NestedFieldCopy_status obj2))"
      using assms(5) True by simp
    have r: "(case ToUnstructured obj3 of
                Inl err \<Rightarrow> Inl err
              | Inr objectAfterPatch \<Rightarrow>
                  FromUnstructured
                    (SetNestedField_status objectAfterPatch (fst (NestedFieldCopy_status obj2))))
               = Inr sobj"
      unfolding so using assms(9)[OF True] by (rule status_restored)
    show ?thesis
      unfolding run using sp
      by (cases e) (simp_all add: True p r)
  next
    case False
    have so: "sobj = obj2"
      using assms(5) False by simp
    have sp: "doStatusPatch (Client c) obj2 (MergeFrom obj1) ?w1 =
                ((e, obj4), ?w1\<lparr>store := s3, calls := calls ?w1 @ [StatusPatchCall obj2 (MergeFrom obj1)]\<rparr>)"
      using assms(6) False so by (intro doStatusPatch_eq) simp
    show ?thesis
      unfolding run so using sp
      by (cases e) (simp_all add: False OperationResult_distinct)
  qed
qed

text \<open>
  C2 at a mutation that only sets the status of a pending pod to running, and at one
  that also changes the body.
\<close>

theorem C2_patch_plan_witness:
  "calls (snd (snd (getAndPatch scriptedClient requestedPod (Some (setStatus ''Running''))
      (newWorld [(None, Some pendingPod), (None, None)]))))
     = [GetCall (''default'', ''web''), StatusPatchCall runningPod (MergeFrom pendingPod)] \<and>
   fst (getAndPatch scriptedClient requestedPod (Some (setStatus ''Running''))
      (newWorld [(None, Some pendingPod), (None, None)]))
     = (OperationResultUpdatedStatusOnly, None) \<and>
   calls (snd (snd (getAndPatch scriptedClient requestedPod (Some (setBodyAndStatus 2 ''Running''))
      (newWorld [(None, Some pendingPod), (None, Some scaledPodV2), (None, None)]))))
     = [GetCall (''default'', ''web''), PatchCall scaledPod (MergeFrom pendingPod),
        StatusPatchCall scaledPodV2Running (MergeFrom pendingPod)] \<and>
   fst (getAndPatch scriptedClient requestedPod (Some (setBodyAndStatus 2 ''Running''))
      (newWorld [(None, Some pendingPod), (None, Some scaledPodV2), (None, None)]))
     = (OperationResultUpdatedStatus, None)"
  using C2_patch_plan [of "NewClient scriptedClient []" requestedPod
      "newWorld [(None, Some pendingPod), (None, None)]"
      pendingPod "[(None, None)]" "setStatus ''Running''" runningPod
      runningPod "[]" runningPod None runningPod "[]"]
    C2_patch_plan [of "NewClient scriptedClient []" requestedPod
      "newWorld [(None, Some pendingPod), (None, Some scaledPodV2), (None, None)]"
      pendingPod "[(None, Some scaledPodV2), (None, None)]" "setBodyAndStatus 2 ''Running''" scaledPod
      scaledPodV2 "[(None, None)]" scaledPodV2Running None scaledPodV2Running "[]"]
  by (simp add: NewClient_def ApplyOptions_def scriptedClient_def newWorld_def
        requestedPod_def pendingPod_def runningPod_def scaledPod_def scaledPodV2_def
        scaledPodV2Running_def setStatus_def setBodyAndStatus_def ObjectKeyFromObject_def
        bodyDiffers_def statusDiffers_def
        NestedFieldCopy_status_def RemoveNestedField_status_def SetNestedField_status_def)

text \<open>
  C3. In one attempt of \<open>getAndPatch\<close> in which the fetch and the mutation succeed
  (on objects that the unstructured converter accepts) and both the document without
  status and the status value differ: the body patch is
  issued first, with the mutated object; when it fails the attempt returns its error
  and no status patch is issued; when it succeeds the status patch follows, issued
  with the object the body patch returned, its status set to the status value after
  the mutation. Both patches are merge patches from the snapshot fetched, and the two
  comparisons are on the snapshot fetched and the snapshot mutated only.
\<close>

theorem C3_body_patch_before_status_patch:
  assumes "Get (Client c) (ObjectKeyFromObject obj) obj (store w) = ((None, obj1), s1)"
    and "g obj1 = (None, obj2)"
    and "ObjectKeyFromObject obj2 = ObjectKeyFromObject obj"
    and "bodyDiffers obj1 obj2"
    and "statusDiffers obj1 obj2"
    and "Patch (Client c) obj2 (MergeFrom obj1) s1 = ((e, obj3), s2)"
    and "sobj = SetNestedField_status obj3 (fst (NestedFieldCopy_status obj2))"
    and "StatusPatch (Client c) sobj (MergeFrom obj1) s2 = ((e', obj4), s3)"
    and "unconvertible obj1 = None"
    and "unconvertible obj2 = None"
    and "e = None \<Longrightarrow> unconvertible obj3 = None"
  shows "(e \<noteq> None \<longrightarrow>
            getAndPatch (Client c) obj (Some g) w =
              ((OperationResultNone, e), obj3,
               w\<lparr>store := s2,
                 calls := calls w @ [GetCall (ObjectKeyFromObject obj), PatchCall obj2 (MergeFrom obj1)]\<rparr>)) \<and>
         (e = None \<longrightarrow>
            getAndPatch (Client c) obj (Some g) w =
              ((if e' = None then OperationResultUpdatedStatus else OperationResultUpdated, e'), obj4,
               w\<lparr>store := s3,
                 calls := calls w @ [GetCall (ObjectKeyFromObject obj), PatchCall obj2 (MergeFrom obj1),
                                     StatusPatchCall sobj (MergeFrom obj1)]\<rparr>))"
proof -
  let ?w1 = "w\<lparr>store := s1, calls := calls w @ [GetCall (ObjectKeyFromObject obj)]\<rparr>"
  let ?w2 = "?w1\<lparr>store := s2, calls := calls ?w1 @ [PatchCall obj2 (MergeFrom obj1)]\<rparr>"
  have m: "(if Some g \<noteq> None then mutate (Some g) (ObjectKeyFromObject obj) obj1 else (None, obj1)) = (None, obj2)"
    using assms(2,3) by (simp add: mutate_ok)
  note run = getAndPatch_mutated[OF assms(1,9) m assms(10) refl]
  have p: "doPatch (Client c) obj2 (MergeFrom obj1) ?w1 = ((e, obj3), ?w2)"
    using assms(6) by (intro doPatch_eq) simp
  have sp: "doStatusPatch (Client c) sobj (MergeFrom obj1) ?w2 =
              ((e', obj4), ?w2\<lparr>store := s3, calls := calls ?w2 @ [StatusPatchCall sobj (MergeFrom obj1)]\<rparr>)"
    using assms(8) by (intro doStatusPatch_eq) simp
  show ?thesis
  proof (cases e)
    case None
    have r: "(case ToUnstructured obj3 of
                Inl err \<Rightarrow> Inl err
              | Inr objectAfterPatch \<Rightarrow>
                  FromUnstructured
                    (SetNestedField_status objectAfterPatch (fst (NestedFieldCopy_status obj2))))
               = Inr sobj"
      unfolding assms(7) using assms(11)[OF None] by (rule status_restored)
    show ?thesis
      unfolding run p using sp
      by (cases e') (simp_all add: None assms(4,5) r)
  next
    case (Some err)
    show ?thesis
      unfolding run p by (simp add: Some assms(4))
  qed
qed

text \<open>C3 at a store that accepts the body patch, and at one that answers it with a conflict.\<close>

theorem C3_body_patch_before_status_patch_witness:
  "getAndPatch scriptedClient requestedPod (Some (setBodyAndStatus 2 ''Running''))
      (newWorld [(None, Some pendingPod), (None, Some scaledPodV2), (None, None)])
     = ((OperationResultUpdatedStatus, None), scaledPodV2Running,
        \<lparr>store = [],
         calls = [GetCall (''default'', ''web''), PatchCall scaledPod (MergeFrom pendingPod),
                  StatusPatchCall scaledPodV2Running (MergeFrom pendingPod)],
         slept = [], rand = (\<lambda>i. 0)\<rparr>) \<and>
   getAndPatch scriptedClient requestedPod (Some (setBodyAndStatus 2 ''Running''))
      (newWorld [(None, Some pendingPod), (Some conflictError, None), (None, None)])
     = ((OperationResultNone, Some conflictError), scaledPod,
        \<lparr>store = [(None, None)],
         calls = [GetCall (''default'', ''web''), PatchCall scaledPod (MergeFrom pendingPod)],
         slept = [], rand = (\<lambda>i. 0)\<rparr>)"
  using C3_body_patch_before_status_patch [of "NewClient scriptedClient []" requestedPod
      "newWorld [(None, Some pendingPod), (None, Some scaledPodV2), (None, None)]"
      pendingPod "[(None, Some scaledPodV2), (None, None)]" "setBodyAndStatus 2 ''Running''" scaledPod
      None scaledPodV2 "[(None, None)]" scaledPodV2Running None scaledPodV2Running "[]"]
    C3_body_patch_before_status_patch [of "NewClient scriptedClient []" requestedPod
      "newWorld [(None, Some pendingPod), (Some conflictError, None), (None, None)]"
      pendingPod "[(Some conflictError, None), (None, None)]" "setBodyAndStatus 2 ''Running''" scaledPod
      "Some conflictError" scaledPod "[(None, None)]" "scaledPod" None scaledPod "[]"]
  by (simp add: NewClient_def ApplyOptions_def scriptedClient_def newWorld_def
        requestedPod_def pendingPod_def scaledPod_def scaledPodV2_def scaledPodV2Running_def
        setBodyAndStatus_def ObjectKeyFromObject_def bodyDiffers_def statusDiffers_def
        NestedFieldCopy_status_def RemoveNestedField_status_def SetNestedField_status_def)

text \<open>
  C4. When the fetch succeeds (with an object that the unstructured converter
  accepts) and the mutation function returns nil after changing the name or the
  namespace, \<open>getAndUpdate\<close>, \<open>getAndPatch\<close>, \<open>GetAndUpdate\<close> and
  \<open>GetAndPatch\<close> fail with the identity error of \<open>mutate\<close> after the Get alone: no
  write call is issued and the store is as the Get left it.
\<close>

theorem C4_identity_violation:
  assumes "Get (Client c) (ObjectKeyFromObject obj) obj (store w) = ((None, obj1), s1)"
    and "ObjectKeyFromObject obj1 = ObjectKeyFromObject obj"
    and "g obj1 = (None, obj2)"
    and "ObjectKeyFromObject obj2 \<noteq> ObjectKeyFromObject obj1"
    and "0 < Steps (Backoff (ClientOptions c))"
    and "w1 = w\<lparr>store := s1, calls := calls w @ [GetCall (ObjectKeyFromObject obj)]\<rparr>"
    and "unconvertible obj1 = None"
  shows "getAndUpdate (Client c) obj (Some g) w = ((OperationResultNone, Some identityError), obj2, w1) \<and>
         getAndPatch (Client c) obj (Some g) w = ((OperationResultNone, Some identityError), obj2, w1) \<and>
         GetAndUpdate c obj (Some g) w = ((OperationResultNone, Some identityError), obj2, w1) \<and>
         GetAndPatch c obj (Some g) w = ((OperationResultNone, Some identityError), obj2, w1) \<and>
         filter isWrite (calls w1) = filter isWrite (calls w) \<and> store w1 = s1"
proof -
  have m: "mutate (Some g) (ObjectKeyFromObject obj) obj1 = (Some identityError, obj2)"
    using assms(2,3,4) by (simp add: mutate_identity)
  have u: "getAndUpdate (Client c) obj (Some g) w = ((OperationResultNone, Some identityError), obj2, w1)"
    unfolding assms(6) using assms(1) m by (rule getAndUpdate_mutate_error)
  have p: "getAndPatch (Client c) obj (Some g) w = ((OperationResultNone, Some identityError), obj2, w1)"
    unfolding assms(6) using assms(1,7) _ m by (rule getAndPatch_mutate_error) simp
  have nc: "\<not> IsConflict identityError"
    by (simp add: identityError_def)
  have U: "GetAndUpdate c obj (Some g) w = ((OperationResultNone, Some identityError), obj2, w1)"
    unfolding GetAndUpdate_def using assms(5) u by (rule retried_first_final) (simp add: nc)
  have P: "GetAndPatch c obj (Some g) w = ((OperationResultNone, Some identityError), obj2, w1)"
    unfolding GetAndPatch_def using assms(5) p by (rule retried_first_final) (simp add: nc)
  have "filter isWrite (calls w1) = filter isWrite (calls w) \<and> store w1 = s1"
    by (simp add: assms(6))
  with u p U P show ?thesis by simp
qed

text \<open>C4 at a mutation function that renames the fetched pod.\<close>

theorem C4_identity_violation_witness:
  "GetAndUpdate (NewClient scriptedClient []) requestedPod (Some (rename ''other'')) (newWorld [(None, Some pendingPod)])
     = ((OperationResultNone, Some identityError), renamedPod,
        \<lparr>store = [], calls = [GetCall (''default'', ''web'')], slept = [], rand = (\<lambda>i. 0)\<rparr>) \<and>
   GetAndPatch (NewClient scriptedClient []) requestedPod (Some (rename ''other'')) (newWorld [(None, Some pendingPod)])
     = ((OperationResultNone, Some identityError), renamedPod,
        \<lparr>store = [], calls = [GetCall (''default'', ''web'')], slept = [], rand = (\<lambda>i. 0)\<rparr>)"
  using C4_identity_violation [of "NewClient scriptedClient []" requestedPod
      "newWorld [(None, Some pendingPod)]" pendingPod "[]" "rename ''other''" renamedPod
      "\<lparr>store = [], calls = [GetCall (''default'', ''web'')], slept = [], rand = (\<lambda>i. 0)\<rparr>"]
  by (simp add: NewClient_def ApplyOptions_def defaultBackoff_def scriptedClient_def newWorld_def
        requestedPod_def pendingPod_def renamedPod_def rename_def ObjectKeyFromObject_def)

text \<open>
  C5. In a run of the retry around any operation, every invocation but the last
  returned a conflict error, so the operation is invoked again only after a conflict;
  the run returns what the last invocation returned, unchanged, be it nil, another
  error or, when the steps are used up, the last conflict error; a conflict error is
  returned only after exactly \<open>Steps\<close> invocations, and never more than \<open>Steps\<close>
  invocations are made. The recording does not change the run.
\<close>

theorem C5_retry_only_on_conflict:
  assumes "RetryOnConflict b (logged fn) (a, []) w = ((r, a', hist), w')"
  shows "RetryOnConflict b fn a w = ((r, a'), w') \<and>
         (\<forall>e \<in> set (butlast hist). isConflictResult e) \<and>
         (hist \<noteq> [] \<longrightarrow> r = last hist) \<and>
         (hist = [] \<longrightarrow> r = None \<and> Steps b \<le> 0) \<and>
         int (length hist) \<le> max 0 (Steps b) \<and>
         (isConflictResult r \<longrightarrow> int (length hist) = Steps b)"
proof -
  have run: "OnError b IsConflict (logged fn) None (a, []) w = ((r, a', hist), w')"
    using assms by (simp add: RetryOnConflict_def)
  have "RetryOnConflict b fn a w = ((r, a'), w')"
    using OnError_logged_sim[of b IsConflict fn None a "[]" w] run
    by (simp add: RetryOnConflict_def)
  moreover from OnError_logged[OF run] obtain new where
      "hist = [] @ new"
      "\<forall>e \<in> set (butlast new). isConflictResult e"
      "new \<noteq> [] \<longrightarrow> r = last new"
      "new = [] \<longrightarrow> r = None \<and> Steps b \<le> 0"
      "int (length new) \<le> max 0 (Steps b)"
      "new \<noteq> [] \<and> isConflictResult r \<longrightarrow> int (length new) = Steps b"
    by blast
  moreover have "\<not> isConflictResult None"
    by (simp add: isConflictResult_def)
  ultimately show ?thesis by auto
qed

text \<open>C5 at a status update answered by a conflict and then by a forbidden error.\<close>

theorem C5_retry_only_on_conflict_witness:
  "RetryOnConflict defaultBackoff (doStatusUpdate scriptedClient) pendingPod
      (newWorld [(Some conflictError, None), (Some forbiddenError, None), (None, None)])
     = ((Some forbiddenError, pendingPod),
        \<lparr>store = [(None, None)], calls = [StatusUpdateCall pendingPod, StatusUpdateCall pendingPod],
         slept = [1], rand = (\<lambda>i. 0)\<rparr>)"
  using C5_retry_only_on_conflict [of defaultBackoff "doStatusUpdate scriptedClient" pendingPod
      "newWorld [(Some conflictError, None), (Some forbiddenError, None), (None, None)]"
      "Some forbiddenError" pendingPod "[Some conflictError, Some forbiddenError]"
      "\<lparr>store = [(None, None)], calls = [StatusUpdateCall pendingPod, StatusUpdateCall pendingPod],
         slept = [1], rand = (\<lambda>i. 0)\<rparr>"]
  by (simp add: RetryOnConflict_def defaultBackoff_def logged_def doStatusUpdate_def scriptedClient_def
        newWorld_def conflictError_def forbiddenError_def Step_def)

text \<open>
  C6 as stated fails for a configuration a caller can set: with a factor of one half
  the three attempts all end in a conflict and the delays between them are 1 and 1/2.
\<close>

theorem C6_decreasing_delays_counterexample:
  "UpdateStatus (NewClient conflictingClient [withBackoff halvingBackoff]) pendingPod (newWorld ())
     = ((Some conflictError, pendingPod),
        \<lparr>store = (),
         calls = [StatusUpdateCall pendingPod, StatusUpdateCall pendingPod, StatusUpdateCall pendingPod],
         slept = [1, 1 / 2], rand = (\<lambda>i. 0)\<rparr>) \<and>
   IsConflict conflictError \<and>
   \<not> sorted (slept (snd (UpdateStatus (NewClient conflictingClient [withBackoff halvingBackoff])
                  pendingPod (newWorld ()))))"
proof -
  have run: "UpdateStatus (NewClient conflictingClient [withBackoff halvingBackoff]) pendingPod (newWorld ())
     = ((Some conflictError, pendingPod),
        \<lparr>store = (),
         calls = [StatusUpdateCall pendingPod, StatusUpdateCall pendingPod, StatusUpdateCall pendingPod],
         slept = [1, 1 / 2], rand = (\<lambda>i. 0)\<rparr>)"
    by (simp add: UpdateStatus_def RetryOnConflict_def NewClient_def ApplyOptions_def withBackoff_def
        halvingBackoff_def doStatusUpdate_def conflictingClient_def conflictError_def newWorld_def
        Step_def Let_def)
  have "\<not> (1::rat) \<le> 1 / 2"
    by simp
  then have "\<not> sorted [(1::rat), 1 / 2]"
    by (simp only: sorted2 simp_thms)
  moreover have "IsConflict conflictError"
    by (simp add: conflictError_def)
  ultimately show ?thesis
    unfolding run by simp
qed

text \<open>
  C6, amended. When every invocation of the operation returns a conflict error (and
  the operation leaves the clock alone) and the configuration has at least one step,
  the retry invokes it exactly \<open>Steps\<close> times, sleeps between them the
  \<open>Steps - 1\<close> delays of the backoff, and returns the last conflict error. The delays
  are non-decreasing when the initial delay and the jitter are not negative and the
  factor is at least one plus the jitter, as for the default backoff.
\<close>

theorem C6_retry_exhaustion:
  assumes "\<And>a w. isConflictResult (fst (fst (fn a w)))"
    and "\<And>a w. slept (snd (fn a w)) = slept w \<and> rand (snd (fn a w)) = rand w"
    and "0 < Steps b"
    and "RetryOnConflict b (logged fn) (a, []) w = ((r, a', hist), w')"
  shows "int (length hist) = Steps b \<and> isConflictResult r \<and> r = last hist \<and>
         slept w' = slept w @ delays b (rand w) (length (slept w)) \<and>
         int (length (delays b (rand w) (length (slept w)))) = Steps b - 1 \<and>
         (0 \<le> Duration b \<and> 0 \<le> Jitter b \<and> 1 + Jitter b \<le> Factor b \<and>
          (\<forall>i. 0 \<le> rand w i \<and> rand w i < 1) \<longrightarrow>
            sorted (delays b (rand w) (length (slept w))))"
proof -
  have run: "OnError b IsConflict (logged fn) None (a, []) w = ((r, a', hist), w')"
    using assms(4) by (simp add: RetryOnConflict_def)
  from OnError_always_conflict[OF assms(1,2,3) run] obtain new where
      "hist = [] @ new" "int (length new) = Steps b" "isConflictResult r" "r = last new"
      "slept w' = slept w @ delays b (rand w) (length (slept w))"
    by blast
  moreover have "int (length (delays b (rand w) (length (slept w)))) = Steps b - 1"
    using delays_length[of b "rand w" "length (slept w)"] assms(3) by simp
  moreover have "sorted (delays b (rand w) (length (slept w)))"
    if "0 \<le> Duration b \<and> 0 \<le> Jitter b \<and> 1 + Jitter b \<le> Factor b \<and>
        (\<forall>i. 0 \<le> rand w i \<and> rand w i < 1)"
    using that delays_sorted[of b "rand w" "length (slept w)"] by simp
  ultimately show ?thesis by simp
qed

text \<open>C6 at the default backoff and a store that answers every write with a conflict.\<close>

theorem C6_retry_exhaustion_witness:
  "int (length (snd (snd (fst (RetryOnConflict defaultBackoff (logged (doStatusUpdate conflictingClient))
          (pendingPod, []) (newWorld ())))))) = 5 \<and>
   sorted (slept (snd (RetryOnConflict defaultBackoff (logged (doStatusUpdate conflictingClient))
          (pendingPod, []) (newWorld ()))))"
  using C6_retry_exhaustion [of "doStatusUpdate conflictingClient" defaultBackoff pendingPod "newWorld ()"
      "fst (fst (RetryOnConflict defaultBackoff (logged (doStatusUpdate conflictingClient))
          (pendingPod, []) (newWorld ())))"
      "fst (snd (fst (RetryOnConflict defaultBackoff (logged (doStatusUpdate conflictingClient))
          (pendingPod, []) (newWorld ()))))"
      "snd (snd (fst (RetryOnConflict defaultBackoff (logged (doStatusUpdate conflictingClient))
          (pendingPod, []) (newWorld ()))))"
      "snd (RetryOnConflict defaultBackoff (logged (doStatusUpdate conflictingClient))
          (pendingPod, []) (newWorld ()))"]
  by (simp add: doStatusUpdate_def conflictingClient_def conflictError_def isConflictResult_def
        defaultBackoff_def newWorld_def)




text \<open>
  C8. \<open>CreateIfNotExist\<close> at a store whose Get fails with a forbidden error, which
  is not a not-found error: the Create is issued all the same, and nil is returned.
\<close>

theorem C8_create_after_any_fetch_error:
  "CreateIfNotExist (NewClient scriptedClient []) pendingPod
      (newWorld [(Some forbiddenError, None), (None, None)])
     = ((None, pendingPod),
        \<lparr>store = [], calls = [GetCall (''default'', ''web''), CreateCall pendingPod],
         slept = [], rand = (\<lambda>i. 0)\<rparr>) \<and>
   \<not> IsNotFound forbiddenError"
  by (simp add: CreateIfNotExist_def RetryOnConflict_def NewClient_def ApplyOptions_def
        defaultBackoff_def createIfNotExist_def doGet_def doCreate_def scriptedClient_def
        newWorld_def forbiddenError_def pendingPod_def ObjectKeyFromObject_def)

text \<open>
  C9 as stated fails: \<open>ApplyOptions\<close>, a method of the \<open>Client\<close> interface, replaces
  the backoff of a client that \<open>NewClient\<close> has returned.
\<close>

theorem C9_ApplyOptions_counterexample:
  "Backoff (ClientOptions (NewClient (scriptedClient :: ((nat, string) object, (nat, string) object script) client) []))
     = defaultBackoff \<and>
   Backoff (ClientOptions (ApplyOptions [withBackoff halvingBackoff]
      (NewClient (scriptedClient :: ((nat, string) object, (nat, string) object script) client) [])))
     = halvingBackoff \<and>
   halvingBackoff \<noteq> defaultBackoff"
  by (simp add: NewClient_def ApplyOptions_def withBackoff_def halvingBackoff_def defaultBackoff_def)

text \<open>
  C9, amended. The options given to \<open>NewClient\<close> set the configuration, the later
  option winning; \<open>ApplyOptions\<close> on a constructed client changes the configuration
  as the same options given at construction would; and every other method declared
  on the client leaves the client, and so its configuration, as it is:
  \<open>GetAndUpdate\<close>, \<open>GetAndPatch\<close>, \<open>CreateOrPatchWithJsonMerge\<close>, \<open>CreateOrUpdate\<close>,
  \<open>CreateOrPatch\<close>, \<open>CreateIfNotExist\<close> and \<open>UpdateStatus\<close>, whose results are those of
  the operations above, and the accessors \<open>GetNonEmptySecretField\<close>,
  \<open>GetNonEmptyConfigMapField\<close> and \<open>GetConfigMapFieldYamlUnmarshal\<close>.
\<close>

theorem C9_configuration:
  "ApplyOptions later (NewClient c opts) = NewClient c (opts @ later) \<and>
   Backoff (ClientOptions (NewClient c (opts @ [withBackoff b]))) = b \<and>
   GetAndUpdate_receiver rc obj f w = (GetAndUpdate rc obj f w, rc) \<and>
   GetAndPatch_receiver rc obj f w = (GetAndPatch rc obj f w, rc) \<and>
   CreateOrPatchWithJsonMerge_receiver rc obj f w = (CreateOrPatchWithJsonMerge rc obj f w, rc) \<and>
   CreateOrUpdate_receiver rc obj f w = (CreateOrUpdate rc obj f w, rc) \<and>
   CreateOrPatch_receiver rc obj f w = (CreateOrPatch rc obj f w, rc) \<and>
   CreateIfNotExist_receiver rc obj w = (CreateIfNotExist rc obj w, rc) \<and>
   UpdateStatus_receiver rc obj w = (UpdateStatus rc obj w, rc) \<and>
   snd (GetNonEmptySecretField dc namespace name field dw) = dc \<and>
   snd (GetNonEmptyConfigMapField dc namespace name field dw) = dc \<and>
   snd (GetConfigMapFieldYamlUnmarshal yamlUnmarshal dc namespace name field target dw) = dc"
proof -
  have "ApplyOptions later (NewClient c opts) = NewClient c (opts @ later)"
    by (simp add: NewClient_def ApplyOptions_def)
  moreover have "Backoff (ClientOptions (NewClient c (opts @ [withBackoff b]))) = b"
    by (simp add: NewClient_def ApplyOptions_def withBackoff_def)
  moreover have "GetAndUpdate_receiver rc obj f w = (GetAndUpdate rc obj f w, rc)"
    by (simp add: GetAndUpdate_receiver_def GetAndUpdate_def retriedOn_receiver)
  moreover have "GetAndPatch_receiver rc obj f w = (GetAndPatch rc obj f w, rc)"
    by (simp add: GetAndPatch_receiver_def GetAndPatch_def retriedOn_receiver)
  moreover have "CreateOrPatchWithJsonMerge_receiver rc obj f w = (CreateOrPatchWithJsonMerge rc obj f w, rc)"
    by (simp add: CreateOrPatchWithJsonMerge_receiver_def CreateOrPatchWithJsonMerge_def retriedOn_receiver)
  moreover have "CreateOrUpdate_receiver rc obj f w = (CreateOrUpdate rc obj f w, rc)"
    by (simp add: CreateOrUpdate_receiver_def CreateOrUpdate_def retriedOn_receiver)
  moreover have "CreateOrPatch_receiver rc obj f w = (CreateOrPatch rc obj f w, rc)"
    by (simp add: CreateOrPatch_receiver_def CreateOrPatch_def retriedOn_receiver)
  ultimately show ?thesis
    by (simp only: CreateIfNotExist_receiver_eq UpdateStatus_receiver_eq
          GetNonEmptySecretField_receiver GetNonEmptyConfigMapField_receiver
          GetConfigMapFieldYamlUnmarshal_receiver simp_thms)
qed

text \<open>
  C9 at a status update that meets one conflict, and at the read of a ConfigMap
  field, on a client built with a backoff option.
\<close>

theorem C9_configuration_witness:
  "UpdateStatus_receiver (NewClient scriptedClient [withBackoff halvingBackoff]) pendingPod
      (newWorld [(Some conflictError, None), (None, None)])
     = (((None, pendingPod),
         \<lparr>store = [], calls = [StatusUpdateCall pendingPod, StatusUpdateCall pendingPod],
          slept = [1], rand = (\<lambda>i. 0)\<rparr>),
        NewClient scriptedClient [withBackoff halvingBackoff]) \<and>
   snd (GetNonEmptyConfigMapField (NewClient scriptedClient [withBackoff halvingBackoff])
      ''default'' ''settings'' ''mode''
      (newWorld [(None, Some (settingsConfigMap :: string dataObject))]))
     = NewClient scriptedClient [withBackoff halvingBackoff]"
proof -
  have run: "UpdateStatus (NewClient scriptedClient [withBackoff halvingBackoff]) pendingPod
      (newWorld [(Some conflictError, None), (None, None)])
     = ((None, pendingPod),
        \<lparr>store = [], calls = [StatusUpdateCall pendingPod, StatusUpdateCall pendingPod],
         slept = [1], rand = (\<lambda>i. 0)\<rparr>)"
    by (simp add: UpdateStatus_def RetryOnConflict_def NewClient_def ApplyOptions_def withBackoff_def
          halvingBackoff_def doStatusUpdate_def scriptedClient_def conflictError_def newWorld_def
          Step_def Let_def)
  show ?thesis
    using C9_configuration [of "[]" scriptedClient "[]" halvingBackoff
        "NewClient scriptedClient [withBackoff halvingBackoff]" pendingPod None
        "newWorld [(Some conflictError, None), (None, None)]"
        "NewClient scriptedClient [withBackoff halvingBackoff]" "''default''" "''settings''" "''mode''"
        "newWorld [(None, Some (settingsConfigMap :: string dataObject))]"
        "\<lambda>s target. (None, target)" "()"]
    unfolding run by blast
qed

text \<open>
  C10. With a nil mutation function and a successful fetch (of an object that the
  unstructured converter accepts), \<open>getAndPatch\<close> and
  \<open>GetAndPatch\<close> do not invoke the function (invoking it through \<open>mutate\<close> would
  fail), compare no keys (the fetched object is not required to have the key asked
  for), issue no write and return the unchanged result with no error.
\<close>

theorem C10_nil_mutation_skipped:
  assumes "Get (Client c) (ObjectKeyFromObject obj) obj (store w) = ((None, obj1), s1)"
    and "0 < Steps (Backoff (ClientOptions c))"
    and "w1 = w\<lparr>store := s1, calls := calls w @ [GetCall (ObjectKeyFromObject obj)]\<rparr>"
    and "unconvertible obj1 = None"
  shows "getAndPatch (Client c) obj None w = ((OperationResultNone, None), obj1, w1) \<and>
         GetAndPatch c obj None w = ((OperationResultNone, None), obj1, w1) \<and>
         filter isWrite (calls w1) = filter isWrite (calls w) \<and>
         fst (mutate None (ObjectKeyFromObject obj) obj1) \<noteq> None"
proof -
  have p: "getAndPatch (Client c) obj None w = ((OperationResultNone, None), obj1, w1)"
    unfolding assms(3) using assms(1,4) by (rule getAndPatch_no_change) simp
  have P: "GetAndPatch c obj None w = ((OperationResultNone, None), obj1, w1)"
    unfolding GetAndPatch_def using assms(2) p by (rule retried_first_final) simp
  have "filter isWrite (calls w1) = filter isWrite (calls w)"
    by (simp add: assms(3))
  moreover have "fst (mutate None (ObjectKeyFromObject obj) obj1) \<noteq> None"
    by (simp add: mutate_def)
  ultimately show ?thesis using p P by simp
qed

text \<open>C10 at a store that answers with an object of another name.\<close>

theorem C10_nil_mutation_skipped_witness:
  "GetAndPatch (NewClient scriptedClient []) requestedPod None (newWorld [(None, Some renamedPod)])
     = ((OperationResultNone, None), renamedPod,
        \<lparr>store = [], calls = [GetCall (''default'', ''web'')], slept = [], rand = (\<lambda>i. 0)\<rparr>)"
  using C10_nil_mutation_skipped [of "NewClient scriptedClient []" requestedPod
      "newWorld [(None, Some renamedPod)]" renamedPod "[]"
      "\<lparr>store = [], calls = [GetCall (''default'', ''web'')], slept = [], rand = (\<lambda>i. 0)\<rparr>"]
  by (simp add: NewClient_def ApplyOptions_def defaultBackoff_def scriptedClient_def newWorld_def
        requestedPod_def renamedPod_def ObjectKeyFromObject_def)

end
